theory Spec2Isabelle
  imports Complex_Main
begin

section \<open>Python values used by the trader\<close>

text \<open>
  The program works on loosely typed dictionaries decoded from the feed. The model keeps
  the shape the code relies on: a dictionary with a fixed set of interesting keys is a
  record, a key that may be missing is an optional field, and a field on which the code
  dispatches by type (\<^verbatim>\<open>isinstance\<close>, \<^verbatim>\<open>is None\<close>) is a \<open>pyval\<close>. The amounts of the feed
  are integers of any size (the decoder reads them from hexadecimal text), so \<open>PInt\<close> carries
  a Python \<^verbatim>\<open>int\<close>; \<open>PStr\<close> is text the decoder could not read as a number; \<open>PNone\<close> is what
  \<^verbatim>\<open>dict.get\<close> yields for a missing key.
\<close>

datatype py_error =
  ValueError | TypeError | ZeroDivisionError | OverflowError | DecimalOverflow | OtherError

datatype pyval = PNone | PInt int | PStr string

datatype direction = AtoB | BtoA

text \<open>Truthiness of a value, as \<^verbatim>\<open>not v\<close> tests it.\<close>

fun truthy :: "pyval \<Rightarrow> bool" where
  "truthy PNone = False"
| "truthy (PInt x) = (x \<noteq> 0)"
| "truthy (PStr s) = (s \<noteq> [])"

text \<open>\<^verbatim>\<open>isinstance(v, (int, float))\<close>\<close>

fun is_number :: "pyval \<Rightarrow> bool" where
  "is_number (PInt x) = True"
| "is_number v = False"

text \<open>
  Formatting an \<^verbatim>\<open>int\<close> into text (\<^verbatim>\<open>str\<close>, an f-string, \<^verbatim>\<open>print\<close>) raises \<^verbatim>\<open>ValueError\<close> when
  the number has more than \<^verbatim>\<open>sys.get_int_max_str_digits()\<close> decimal digits, 4300 unless the
  interpreter is configured otherwise. Formatting text or \<^verbatim>\<open>None\<close> cannot raise.
  \<open>py_format vs\<close> formats the values in order, \<open>py_print verbose vs\<close> is a
  \<^verbatim>\<open>if verbose: print(f"...")\<close> with these values in the line.
\<close>

definition int_max_str_digits :: nat where
  "int_max_str_digits = 4300"

definition py_str_int :: "int \<Rightarrow> py_error + unit" where
  "py_str_int x = (if \<bar>x\<bar> < 10 ^ int_max_str_digits then Inr () else Inl ValueError)"

fun py_str :: "pyval \<Rightarrow> py_error + unit" where
  "py_str (PInt x) = py_str_int x"
| "py_str v = Inr ()"

fun py_format :: "pyval list \<Rightarrow> py_error + unit" where
  "py_format [] = Inr ()"
| "py_format (v # vs) = (case py_str v of Inl e \<Rightarrow> Inl e | Inr u \<Rightarrow> py_format vs)"

definition py_print :: "bool \<Rightarrow> pyval list \<Rightarrow> py_error + unit" where
  "py_print verbose vs = (if verbose then py_format vs else Inr ())"

text \<open>Sequencing of two steps that may raise.\<close>

definition then_do :: "py_error + unit \<Rightarrow> py_error + 'a \<Rightarrow> py_error + 'a" where
  "then_do p k = (case p of Inl e \<Rightarrow> Inl e | Inr u \<Rightarrow> k)"

section \<open>Python floats\<close>

text \<open>
  A \<^verbatim>\<open>float\<close> is an IEEE 754 double. The model holds its value as a real number and
  writes \<open>float_inf = 2^1024\<close>, the first power of two beyond every double, for infinity (so that
  comparisons with finite doubles come out as they do in Python); a NaN has no
  representation. An arithmetic result is the exact result rounded to the nearest double,
  ties to the even mantissa.

  \<open>scale_down\<close> and \<open>scale_up\<close> find the exponent: they bring a non-negative real into
  \<open>[2^52, 2^53)\<close> by halving or doubling, and stop doubling at the exponent \<open>-1074\<close> of the
  subnormal doubles. The mantissa is then rounded to an integer.
\<close>

function scale_down :: "real \<Rightarrow> int \<Rightarrow> real \<times> int" where
  "scale_down r e = (if 2 ^ 53 \<le> r then scale_down (r / 2) (e + 1) else (r, e))"
  by pat_completeness auto
termination
proof (relation "measure (\<lambda>(r, e). nat \<lfloor>r\<rfloor>)")
  show "wf (measure (\<lambda>(r, e). nat \<lfloor>r\<rfloor>))" by simp
next
  fix r :: real and e :: int
  assume a: "2 ^ 53 \<le> r"
  then have "r / 2 + 1 \<le> r" by simp
  then have "\<lfloor>r / 2 + 1\<rfloor> \<le> \<lfloor>r\<rfloor>" by (rule floor_mono)
  then have "\<lfloor>r / 2\<rfloor> < \<lfloor>r\<rfloor>" by simp
  moreover have "0 \<le> \<lfloor>r / 2\<rfloor>" using a by simp
  moreover have "1 \<le> r" using a by simp
  ultimately show "((r / 2, e + 1), (r, e)) \<in> measure (\<lambda>(r, e). nat \<lfloor>r\<rfloor>)" by simp
qed

function scale_up :: "real \<Rightarrow> int \<Rightarrow> real \<times> int" where
  "scale_up r e = (if r < 2 ^ 52 \<and> - 1074 < e then scale_up (2 * r) (e - 1) else (r, e))"
  by pat_completeness auto
termination
  by (relation "measure (\<lambda>(r, e). nat (e + 1074))") auto

declare scale_down.simps [simp del] scale_up.simps [simp del]

definition round_half_even :: "real \<Rightarrow> int" where
  "round_half_even r =
     (let f = \<lfloor>r\<rfloor>; d = r - of_int f in
        if 1 / 2 < d \<or> (d = 1 / 2 \<and> odd f) then f + 1 else f)"

definition float_inf :: real where
  "float_inf = 2 ^ 1024"

definition round_to_double :: "real \<Rightarrow> real" where
  "round_to_double x =
     (if x = 0 then 0
      else let (r1, e1) = scale_down \<bar>x\<bar> 0;
               (r2, e2) = scale_up r1 e1;
               v = of_int (round_half_even r2) * 2 powi e2
           in sgn x * (if float_inf \<le> v then float_inf else v))"

text \<open>
  \<^verbatim>\<open>a / b\<close> on two \<^verbatim>\<open>int\<close>s is the correctly rounded quotient; it raises
  \<^verbatim>\<open>ZeroDivisionError\<close> for a zero divisor and \<^verbatim>\<open>OverflowError\<close> when the quotient rounds
  beyond the doubles. \<^verbatim>\<open>float(a)\<close>, which \<^verbatim>\<open>a / 1e9\<close> applies to an \<^verbatim>\<open>int\<close> first, raises
  \<^verbatim>\<open>OverflowError\<close> in the same way.
\<close>

definition py_truediv :: "int \<Rightarrow> int \<Rightarrow> py_error + real" where
  "py_truediv a b =
     (if b = 0 then Inl ZeroDivisionError
      else let v = round_to_double (of_int a / of_int b) in
             if \<bar>v\<bar> = float_inf then Inl OverflowError else Inr v)"

definition py_float_of_int :: "int \<Rightarrow> py_error + real" where
  "py_float_of_int a =
     (let v = round_to_double (of_int a) in
        if \<bar>v\<bar> = float_inf then Inl OverflowError else Inr v)"


section \<open>The pool event\<close>

record price_entry =
  SlippageBasisPoints :: "int option"
  Price :: real
  MaxAmountIn :: pyval

text \<open>
  \<open>AtoBPrices\<close> and \<open>BtoAPrices\<close> are \<open>None\<close> when the key is missing (the decoder drops
  an empty repeated field). \<open>pt_other_keys\<close> says whether the dictionary has any other
  key, which only matters for its truthiness.
\<close>

record price_table =
  AtoBPrices :: "price_entry list option"
  BtoAPrices :: "price_entry list option"
  pt_other_keys :: bool

definition price_table_truthy :: "price_table \<Rightarrow> bool" where
  "price_table_truthy pt = (AtoBPrices pt \<noteq> None \<or> BtoAPrices pt \<noteq> None \<or> pt_other_keys pt)"

text \<open>The lookup \<^verbatim>\<open>price_table[f'{direction}Prices']\<close>, \<open>None\<close> when the key is not in the table.\<close>

fun prices_key :: "price_table \<Rightarrow> direction \<Rightarrow> price_entry list option" where
  "prices_key pt AtoB = AtoBPrices pt"
| "prices_key pt BtoA = BtoAPrices pt"

text \<open>\<^verbatim>\<open>Liquidity\<close>; an amount is \<open>PStr\<close> when the decoder could not read it as a number.\<close>

record liquidity =
  AmountCurrencyA :: pyval
  AmountCurrencyB :: pyval
  liq_other_keys :: bool

definition liquidity_truthy :: "liquidity \<Rightarrow> bool" where
  "liquidity_truthy l = (AmountCurrencyA l \<noteq> PNone \<or> AmountCurrencyB l \<noteq> PNone \<or> liq_other_keys l)"

record currency =
  SmartContract :: "string option"
  Symbol :: string
  Decimals :: "int option"

text \<open>A currency or a pool that is missing or an empty dictionary is \<open>None\<close>.\<close>

record pool =
  CurrencyA :: "currency option"
  CurrencyB :: "currency option"
  PoolId :: string

text \<open>
  \<open>ProtocolName\<close> is \<^verbatim>\<open>pool_event.get('Dex', {}).get('ProtocolName', '')\<close>. The two gas fields
  hold \<^verbatim>\<open>TransactionHeader.GasPrice\<close> and \<^verbatim>\<open>Header.BaseFee\<close> when present and of type
  \<^verbatim>\<open>int\<close>.
\<close>

record pool_event =
  Pool :: "pool option"
  Liquidity :: liquidity
  PoolPriceTable :: price_table
  ProtocolName :: string
  TransactionHeader_GasPrice :: "int option"
  Header_BaseFee :: "int option"

section \<open>price\_utils.py\<close>

text \<open>The loop that collects every slippage value that is not \<^verbatim>\<open>None\<close>, in bucket order.\<close>

fun collect_slippages :: "price_entry list \<Rightarrow> int list" where
  "collect_slippages [] = []"
| "collect_slippages (e # es) =
     (case SlippageBasisPoints e of
        None \<Rightarrow> collect_slippages es
      | Some s \<Rightarrow> s # collect_slippages es)"

definition get_median_slippage_bps :: "price_table \<Rightarrow> direction \<Rightarrow> int option" where
  "get_median_slippage_bps pt d =
     (case prices_key pt d of
        None \<Rightarrow> None
      | Some prices \<Rightarrow>
          if length prices = 0 then None
          else let slippages = collect_slippages prices in
            if slippages = [] then None
            else let sorted_slippages = sort slippages;
                     median_index = length sorted_slippages div 2
                 in Some (sorted_slippages ! median_index))"

text \<open>The search loop of \<^verbatim>\<open>get_price_for_slippage\<close>: the first entry with the target value.\<close>

fun first_match :: "price_entry list \<Rightarrow> int \<Rightarrow> price_entry option" where
  "first_match [] target = None"
| "first_match (e # es) target =
     (if SlippageBasisPoints e = Some target then Some e else first_match es target)"

definition get_price_for_slippage :: "price_table \<Rightarrow> direction \<Rightarrow> int \<Rightarrow> price_entry option" where
  "get_price_for_slippage pt d slippage_bps =
     (case prices_key pt d of
        None \<Rightarrow> None
      | Some prices \<Rightarrow>
          (case first_match prices slippage_bps of
             Some e \<Rightarrow> Some e
           | None \<Rightarrow> (case prices of [] \<Rightarrow> None | e # es \<Rightarrow> Some e)))"

text \<open>
  The two middle positions of a sorted list of even length, named as Python's
  \<^verbatim>\<open>statistics.median_low\<close> and \<^verbatim>\<open>statistics.median_high\<close> name them; for an odd length
  both are the middle element.
\<close>

definition median_low :: "int list \<Rightarrow> int" where
  "median_low xs = sort xs ! ((length xs - 1) div 2)"

definition median_high :: "int list \<Rightarrow> int" where
  "median_high xs = sort xs ! (length xs div 2)"

text \<open>
  \<^verbatim>\<open>_compare_liquidity_amounts\<close>. \<open>py_int s b\<close> is Python's \<^verbatim>\<open>int(s, b)\<close>, \<open>None\<close> when it raises
  \<^verbatim>\<open>ValueError\<close>. The conversions and the log line of the decision stand inside a \<^verbatim>\<open>try\<close>
  that catches \<^verbatim>\<open>ValueError\<close> and \<^verbatim>\<open>TypeError\<close>, after which the function returns \<^verbatim>\<open>None\<close>.
\<close>

definition amount_to_number :: "(string \<Rightarrow> nat \<Rightarrow> int option) \<Rightarrow> pyval \<Rightarrow> int option" where
  "amount_to_number py_int v =
     (case v of
        PInt x \<Rightarrow> Some x
      | PStr s \<Rightarrow> (if take 2 s = ''0x'' then py_int s 16 else py_int s 10)
      | PNone \<Rightarrow> None)"

definition compare_liquidity_amounts ::
  "(string \<Rightarrow> nat \<Rightarrow> int option) \<Rightarrow> liquidity \<Rightarrow> bool \<Rightarrow> direction option" where
  "compare_liquidity_amounts py_int l verbose =
     (let amount_a = AmountCurrencyA l; amount_b = AmountCurrencyB l in
        if amount_a = PNone \<or> amount_b = PNone then None
        else (case amount_to_number py_int amount_a of
                None \<Rightarrow> None
              | Some amount_a_num \<Rightarrow>
                  (case amount_to_number py_int amount_b of
                     None \<Rightarrow> None
                   | Some amount_b_num \<Rightarrow>
                       (case py_print verbose [PInt amount_a_num, PInt amount_b_num] of
                          Inl e \<Rightarrow> None
                        | Inr u \<Rightarrow> Some (if amount_a_num \<ge> amount_b_num then AtoB else BtoA)))))"

text \<open>\<^verbatim>\<open>v > 0\<close> on a value: a number compares, anything else raises \<^verbatim>\<open>TypeError\<close>.\<close>

fun py_gt_zero :: "pyval \<Rightarrow> py_error + bool" where
  "py_gt_zero (PInt x) = Inr (x > 0)"
| "py_gt_zero v = Inl TypeError"

fun the_int :: "pyval \<Rightarrow> int" where
  "the_int (PInt x) = x"
| "the_int v = 0"

text \<open>
  The \<^verbatim>\<open>try\<close> block of \<^verbatim>\<open>get_best_direction_by_liquidity\<close>: \<open>Inr (Some d)\<close> when it returns
  \<open>d\<close>, \<open>Inr None\<close> when its condition is false and control falls out of the block, \<open>Inl e\<close>
  when a comparison or a division raises \<open>e\<close>. \<^verbatim>\<open>and\<close> does not evaluate its second operand
  when the first is false. The log lines of the block format the two ratios, which are
  floats, and the four amounts, which the function has already printed when \<^verbatim>\<open>verbose\<close> is
  set; they cannot raise.
\<close>

definition ratio_comparison ::
  "int \<Rightarrow> int \<Rightarrow> pyval \<Rightarrow> pyval \<Rightarrow> py_error + direction option" where
  "ratio_comparison atob_max btoa_max amount_a_num amount_b_num =
     (case py_gt_zero amount_a_num of
        Inl e \<Rightarrow> Inl e
      | Inr False \<Rightarrow> Inr None
      | Inr True \<Rightarrow>
          (case py_gt_zero amount_b_num of
             Inl e \<Rightarrow> Inl e
           | Inr False \<Rightarrow> Inr None
           | Inr True \<Rightarrow>
               (case py_truediv atob_max (the_int amount_a_num) of
                  Inl e \<Rightarrow> Inl e
                | Inr atob_ratio \<Rightarrow>
                    (case py_truediv btoa_max (the_int amount_b_num) of
                       Inl e \<Rightarrow> Inl e
                     | Inr btoa_ratio \<Rightarrow>
                         Inr (Some (if atob_ratio \<ge> btoa_ratio then AtoB else BtoA))))))"

text \<open>
  \<^verbatim>\<open>except (ValueError, TypeError, ZeroDivisionError)\<close> turns these three into the absolute
  comparison; any other exception, such as the \<^verbatim>\<open>OverflowError\<close> of a division, leaves the
  function.
\<close>

definition caught_by_ratio_handler :: "py_error \<Rightarrow> bool" where
  "caught_by_ratio_handler e = (e = ValueError \<or> e = TypeError \<or> e = ZeroDivisionError)"

text \<open>
  The part of \<^verbatim>\<open>get_best_direction_by_liquidity\<close> after the two price entries are chosen.
  \<open>display_slippage\<close> holds what the log line prints for the slippage level: the given
  level, or nothing that can raise when the level was built as text before.
\<close>

definition compare_max_amounts ::
  "(string \<Rightarrow> nat \<Rightarrow> int option) \<Rightarrow> liquidity \<Rightarrow> bool \<Rightarrow> price_entry option \<Rightarrow>
     price_entry option \<Rightarrow> pyval list \<Rightarrow> py_error + direction option" where
  "compare_max_amounts py_int l verbose atob_price btoa_price display_slippage =
     (let amount_a = AmountCurrencyA l; amount_b = AmountCurrencyB l;
          atob_max = (case atob_price of Some e \<Rightarrow> MaxAmountIn e | None \<Rightarrow> PNone);
          btoa_max = (case btoa_price of Some e \<Rightarrow> MaxAmountIn e | None \<Rightarrow> PNone)
      in then_do (py_print verbose (display_slippage @ [atob_max, btoa_max]))
           (if atob_max \<noteq> PNone \<and> btoa_max \<noteq> PNone \<and>
               is_number atob_max \<and> is_number btoa_max
            then (case ratio_comparison (the_int atob_max) (the_int btoa_max)
                          amount_a amount_b of
                    Inr (Some d) \<Rightarrow> Inr (Some d)
                  | Inr None \<Rightarrow> Inr (compare_liquidity_amounts py_int l verbose)
                  | Inl e \<Rightarrow>
                      if caught_by_ratio_handler e
                      then Inr (Some (if the_int atob_max \<ge> the_int btoa_max
                                      then AtoB else BtoA))
                      else Inl e)
            else Inr (compare_liquidity_amounts py_int l verbose)))"

text \<open>
  \<^verbatim>\<open>get_best_direction_by_liquidity\<close>. Without a slippage level the entries at the median
  slippage of each direction are compared, and the text \<^verbatim>\<open>f"{atob_slippage}/{btoa_slippage}"\<close>
  is built whether or not \<^verbatim>\<open>verbose\<close> is set.
\<close>

definition opt_val :: "int option \<Rightarrow> pyval" where
  "opt_val x = (case x of None \<Rightarrow> PNone | Some i \<Rightarrow> PInt i)"

definition get_best_direction_by_liquidity ::
  "(string \<Rightarrow> nat \<Rightarrow> int option) \<Rightarrow> pool_event \<Rightarrow> int option \<Rightarrow> bool \<Rightarrow>
     py_error + direction option" where
  "get_best_direction_by_liquidity py_int pe slippage_bps verbose =
     (let l = Liquidity pe; pt = PoolPriceTable pe in
        if \<not> liquidity_truthy l \<or> \<not> price_table_truthy pt then Inr None
        else let amount_a = AmountCurrencyA l; amount_b = AmountCurrencyB l in
          then_do (py_print verbose [amount_a, amount_b])
            (case slippage_bps of
               None \<Rightarrow>
                 (let atob_slippage = get_median_slippage_bps pt AtoB;
                      btoa_slippage = get_median_slippage_bps pt BtoA
                  in then_do (py_print verbose [opt_val atob_slippage, opt_val btoa_slippage])
                       (case atob_slippage of
                          None \<Rightarrow> Inr (compare_liquidity_amounts py_int l verbose)
                        | Some sa \<Rightarrow>
                            (case btoa_slippage of
                               None \<Rightarrow> Inr (compare_liquidity_amounts py_int l verbose)
                             | Some sb \<Rightarrow>
                                 then_do (py_format [PInt sa, PInt sb])
                                   (compare_max_amounts py_int l verbose
                                      (get_price_for_slippage pt AtoB sa)
                                      (get_price_for_slippage pt BtoA sb) []))))
             | Some s \<Rightarrow>
                 compare_max_amounts py_int l verbose
                   (get_price_for_slippage pt AtoB s)
                   (get_price_for_slippage pt BtoA s) [PInt s]))"

section \<open>The chain client and the effects of a call\<close>

text \<open>
  Everything the program asks of the chain client (web3) is an oracle over a world \<open>'w\<close>:
  a query takes the world, answers with a value or with a raised exception, and returns the
  world it leaves. Nothing is assumed about the answers, so two queries of the same kind
  may answer differently. A computation of the program is a function of that shape; \<open>bindE\<close>
  sequences two of them and lets an exception skip the rest, \<open>try_except\<close> is Python's
  \<^verbatim>\<open>try: ... except Exception: ...\<close>.
\<close>

type_synonym ('a, 'w) io = "'w \<Rightarrow> (py_error + 'a) \<times> 'w"

definition returnE :: "'a \<Rightarrow> ('a, 'w) io" where
  "returnE x w = (Inr x, w)"

definition raiseE :: "py_error \<Rightarrow> ('a, 'w) io" where
  "raiseE e w = (Inl e, w)"

definition bindE :: "('a, 'w) io \<Rightarrow> ('a \<Rightarrow> ('b, 'w) io) \<Rightarrow> ('b, 'w) io" where
  "bindE m f w = (case m w of (Inl e, w') \<Rightarrow> (Inl e, w') | (Inr x, w') \<Rightarrow> f x w')"

definition try_except :: "('a, 'w) io \<Rightarrow> (py_error \<Rightarrow> ('a, 'w) io) \<Rightarrow> ('a, 'w) io" where
  "try_except m h w = (case m w of (Inl e, w') \<Rightarrow> h e w' | (Inr x, w') \<Rightarrow> (Inr x, w'))"

text \<open>A pure step that may raise.\<close>

definition liftE :: "py_error + 'a \<Rightarrow> ('a, 'w) io" where
  "liftE r w = (r, w)"

record receipt =
  status :: int
  blockNumber :: int
  gasUsed :: int
  effectiveGasPrice :: int

text \<open>The contract calls the program builds, with their arguments in the source's order.\<close>

datatype tx_call =
    Approve string string int
  | SwapExactETHForTokens int "string list" string int
  | SwapExactTokensForETH int int "string list" string int
  | SwapExactTokensForTokens int int "string list" string int
  | ExactInputSingle string string int string int int int int

record tx_params =
  tx_from :: string
  tx_value :: "int option"
  tx_gas :: int
  tx_gasPrice :: int
  tx_nonce :: int

text \<open>
  \<open>to_checksum_address\<close> raises on a string that is not an address, \<open>clock\<close> is
  \<^verbatim>\<open>int(time.time())\<close>. The optional integer of a balance query is its
  \<^verbatim>\<open>block_identifier\<close>. \<open>send_transaction\<close> stands for \<^verbatim>\<open>build_transaction\<close>,
  \<^verbatim>\<open>sign_transaction\<close> and \<^verbatim>\<open>send_raw_transaction\<close> in a row, and yields the hash as text.
\<close>

record 'w chain =
  to_checksum_address :: "string \<Rightarrow> py_error + string"
  clock :: "'w \<Rightarrow> int \<times> 'w"
  eth_gas_price :: "(int, 'w) io"
  eth_get_balance :: "string \<Rightarrow> int option \<Rightarrow> (int, 'w) io"
  erc20_balanceOf :: "string \<Rightarrow> string \<Rightarrow> int option \<Rightarrow> (int, 'w) io"
  erc20_allowance :: "string \<Rightarrow> string \<Rightarrow> string \<Rightarrow> (int, 'w) io"
  eth_get_transaction_count :: "string \<Rightarrow> (int, 'w) io"
  send_transaction :: "tx_call \<Rightarrow> tx_params \<Rightarrow> (string, 'w) io"
  wait_for_transaction_receipt :: "string \<Rightarrow> (receipt, 'w) io"

text \<open>
  The unit conversions of the client library. \<^verbatim>\<open>w3.to_wei(x, 'gwei')\<close> multiplies by
  \<open>10^9\<close> in decimal arithmetic of 999 digits, raises \<^verbatim>\<open>ValueError\<close> when the product is
  below 0 or above \<open>2^256 - 1\<close>, and drops the fraction otherwise. It reads a \<^verbatim>\<open>float\<close>
  through its printed form, so the real number of the model is the decimal number the
  configured value prints as; a configured value is a finite number. \<^verbatim>\<open>w3.from_wei\<close>, used
  in warnings only, raises \<^verbatim>\<open>ValueError\<close> outside the same range.
\<close>

definition MAX_WEI :: int where
  "MAX_WEI = 2 ^ 256 - 1"

definition to_wei_gwei :: "real \<Rightarrow> py_error + int" where
  "to_wei_gwei x =
     (let result_value = x * 1000000000 in
        if result_value < 0 \<or> result_value > of_int MAX_WEI then Inl ValueError
        else Inr \<lfloor>result_value\<rfloor>)"

definition from_wei :: "int \<Rightarrow> py_error + unit" where
  "from_wei n = (if n < 0 \<or> n > MAX_WEI then Inl ValueError else Inr ())"

section \<open>gas\_utils.py\<close>

record gas_manager =
  gas_price_gwei :: "real option"
  max_gas_price_gwei :: real

text \<open>
  A log line \<^verbatim>\<open>print(f"... {price / 1e9:.2f} ...")\<close> converts the \<^verbatim>\<open>int\<close> to a float
  before dividing, which raises \<^verbatim>\<open>OverflowError\<close> for a price beyond the doubles; nothing
  else in the line can raise.
\<close>

definition log_gwei :: "int \<Rightarrow> (unit, 'w) io" where
  "log_gwei price = bindE (liftE (py_float_of_int price)) (\<lambda>v. returnE ())"

text \<open>
  \<^verbatim>\<open>get_gas_price\<close>. \<^verbatim>\<open>if self.gas_price_gwei:\<close> is a truthiness test: \<^verbatim>\<open>None\<close> and zero both
  count as no fixed price. The conversions of the first two tiers stand outside the
  \<^verbatim>\<open>try\<close>; those of the third tier are inside it.
\<close>

definition get_gas_price :: "'w chain \<Rightarrow> gas_manager \<Rightarrow> int option \<Rightarrow> (int, 'w) io" where
  "get_gas_price ch gm stream_gas_price_wei =
     (case stream_gas_price_wei of
        Some s \<Rightarrow>
          bindE (liftE (to_wei_gwei (max_gas_price_gwei gm))) (\<lambda>max_gas_price.
            if s > max_gas_price
            then bindE (log_gwei s) (\<lambda>u. returnE max_gas_price)
            else bindE (log_gwei s) (\<lambda>u. returnE s))
      | None \<Rightarrow>
          (let from_network =
             try_except
               (bindE (eth_gas_price ch) (\<lambda>gas_price.
                  bindE (liftE (to_wei_gwei (max_gas_price_gwei gm))) (\<lambda>max_gas_price.
                    if gas_price > max_gas_price
                    then bindE (log_gwei gas_price) (\<lambda>u. returnE max_gas_price)
                    else bindE (log_gwei gas_price) (\<lambda>u. returnE gas_price))))
               (\<lambda>e. bindE (liftE (to_wei_gwei 30)) (\<lambda>fallback_gas. returnE fallback_gas))
           in case gas_price_gwei gm of
                Some g \<Rightarrow>
                  if g \<noteq> 0
                  then bindE (liftE (to_wei_gwei g)) (\<lambda>fixed_gas_wei.
                         bindE (log_gwei fixed_gas_wei) (\<lambda>u. returnE fixed_gas_wei))
                  else from_network
              | None \<Rightarrow> from_network))"

section \<open>Python's Decimal, as conversion\_utils.py uses it\<close>

text \<open>
  A finite \<^verbatim>\<open>Decimal\<close> is a signed coefficient and an exponent: \<open>Dec m e\<close> is \<open>m * 10^e\<close>. The
  program never changes the decimal context, so every operation rounds its exact result to
  the default precision of 28 significant digits, ties to the even neighbour
  (\<^verbatim>\<open>ROUND_HALF_EVEN\<close>). The context's exponent limits (beyond \<open>10^999999\<close>) are not
  modelled.
\<close>

datatype dec = Dec int int

definition prec :: nat where
  "prec = 28"

text \<open>The number of decimal digits of a coefficient, \<^verbatim>\<open>len(self._int)\<close>.\<close>

fun ndigits :: "nat \<Rightarrow> nat" where
  "ndigits n = (if n < 10 then 1 else Suc (ndigits (n div 10)))"

text \<open>
  \<^verbatim>\<open>Decimal._fix\<close>: a coefficient within the precision is kept; a longer one loses its last
  \<open>k\<close> digits, is incremented when the lost part is above one half or is one half next to an
  odd digit, and loses one more digit (a zero) when the increment carried into a new digit.
\<close>

fun dec_fix :: "dec \<Rightarrow> dec" where
  "dec_fix (Dec m e) =
     (let n = nat \<bar>m\<bar>; d = ndigits n in
        if d \<le> prec then Dec m e
        else let k = d - prec;
                 q = n div 10 ^ k;
                 r = n mod 10 ^ k;
                 half = 5 * 10 ^ (k - 1);
                 q' = (if r > half \<or> (r = half \<and> odd q) then q + 1 else q)
             in if ndigits q' > prec then Dec (sgn m * int (q' div 10)) (e + int k + 1)
                else Dec (sgn m * int q') (e + int k))"

fun dec_mul :: "dec \<Rightarrow> dec \<Rightarrow> dec" where
  "dec_mul (Dec m1 e1) (Dec m2 e2) = dec_fix (Dec (m1 * m2) (e1 + e2))"

text \<open>
  Subtraction brings both operands to the smaller exponent, subtracts the coefficients
  and rounds. (For operands many orders of magnitude apart the library shortens the padding;
  the rounded difference is the same.)
\<close>

fun dec_sub :: "dec \<Rightarrow> dec \<Rightarrow> dec" where
  "dec_sub (Dec m1 e1) (Dec m2 e2) =
     (let e = min e1 e2 in
        dec_fix (Dec (m1 * 10 ^ nat (e1 - e) - m2 * 10 ^ nat (e2 - e)) e))"

text \<open>
  The loop of \<^verbatim>\<open>Decimal.__truediv__\<close> that removes trailing zeros of an exact quotient
  while its exponent is below the ideal exponent.
\<close>

function strip_zeros :: "nat \<Rightarrow> int \<Rightarrow> int \<Rightarrow> nat \<times> int" where
  "strip_zeros coeff expo ideal_exp =
     (if expo < ideal_exp \<and> coeff mod 10 = 0
      then strip_zeros (coeff div 10) (expo + 1) ideal_exp
      else (coeff, expo))"
  by pat_completeness auto
termination
  by (relation "measure (\<lambda>(coeff, expo, ideal_exp). nat (ideal_exp - expo))") auto

text \<open>
  \<^verbatim>\<open>Decimal.__truediv__\<close>: the dividend is scaled so that the integer quotient has one or
  two digits more than the precision; an inexact quotient ending in 0 or 5 is bumped so
  that the final rounding sees the remainder. Division by zero raises.
\<close>

fun dec_div :: "dec \<Rightarrow> dec \<Rightarrow> py_error + dec" where
  "dec_div (Dec m1 e1) (Dec m2 e2) =
     (if m2 = 0 then Inl ZeroDivisionError
      else if m1 = 0 then Inr (dec_fix (Dec 0 (e1 - e2)))
      else
        let n1 = nat \<bar>m1\<bar>; n2 = nat \<bar>m2\<bar>;
            shift = int (ndigits n2) - int (ndigits n1) + int prec + 1;
            expo = e1 - e2 - shift;
            coeff = (if shift \<ge> 0 then (n1 * 10 ^ nat shift) div n2
                     else n1 div (n2 * 10 ^ nat (- shift)));
            remainder = (if shift \<ge> 0 then (n1 * 10 ^ nat shift) mod n2
                         else n1 mod (n2 * 10 ^ nat (- shift)));
            ce = (if remainder \<noteq> 0 then (if coeff mod 5 = 0 then coeff + 1 else coeff, expo)
                  else strip_zeros coeff expo (e1 - e2))
        in Inr (dec_fix (Dec (sgn m1 * sgn m2 * int (fst ce)) (snd ce))))"

text \<open>
  \<^verbatim>\<open>Decimal(10) ** n\<close> for an integer \<open>n\<close>: the power is exact; for \<open>n \<ge> 0\<close> the library
  writes it with as many zeros as the precision allows.
\<close>

definition dec_pow_10 :: "int \<Rightarrow> dec" where
  "dec_pow_10 n =
     (if n \<ge> 0 then let z = min (nat n) (prec - 1) in Dec (10 ^ z) (n - int z)
      else Dec 1 n)"

text \<open>\<^verbatim>\<open>int(d)\<close> drops the fraction, towards zero.\<close>

fun dec_to_int :: "dec \<Rightarrow> int" where
  "dec_to_int (Dec m e) =
     (if e \<ge> 0 then m * 10 ^ nat e else sgn m * (\<bar>m\<bar> div 10 ^ nat (- e)))"

section \<open>conversion\_utils.py\<close>

text \<open>
  \<open>decimal_str\<close> is \<^verbatim>\<open>Decimal(str(x))\<close> on the caller's number type: the decimal that the
  printed form of \<open>x\<close> denotes. The slippage is an \<^verbatim>\<open>int\<close>, whose printed form is itself.
\<close>

definition convert_amount_to_smallest_unit :: "('f \<Rightarrow> dec) \<Rightarrow> 'f \<Rightarrow> int \<Rightarrow> int" where
  "convert_amount_to_smallest_unit decimal_str amount decimals =
     dec_to_int (dec_mul (decimal_str amount) (dec_pow_10 decimals))"

definition calculate_amount_out_min ::
  "('f \<Rightarrow> dec) \<Rightarrow> 'f \<Rightarrow> dec \<Rightarrow> int \<Rightarrow> int \<Rightarrow> py_error + int" where
  "calculate_amount_out_min decimal_str amount_in price decimals_out slippage_bps =
     (let expected_out = dec_mul (decimal_str amount_in) price in
        case dec_div (Dec slippage_bps 0) (Dec 10000 0) of
          Inl e \<Rightarrow> Inl e
        | Inr q \<Rightarrow>
            let slippage_multiplier = dec_sub (Dec 1 0) q;
                amount_out_min = dec_mul expected_out slippage_multiplier
            in Inr (dec_to_int (dec_mul amount_out_min (dec_pow_10 decimals_out))))"

text \<open>
  The value a decimal denotes, truncation towards zero, and the quantity of the
  specification: the product in exact arithmetic, truncated.
\<close>

fun dec_val :: "dec \<Rightarrow> real" where
  "dec_val (Dec m e) = of_int m * 10 powi e"

definition py_trunc :: "real \<Rightarrow> int" where
  "py_trunc x = (if x \<ge> 0 then \<lfloor>x\<rfloor> else \<lceil>x\<rceil>)"

definition exact_amount_out_min :: "real \<Rightarrow> real \<Rightarrow> int \<Rightarrow> int \<Rightarrow> int" where
  "exact_amount_out_min amount_in price decimals_out slippage_bps =
     py_trunc (amount_in * price * (1 - of_int slippage_bps / 10000) * 10 powi decimals_out)"

section \<open>A concrete chain client for the worked examples\<close>

text \<open>
  The world is a counter of the queries made. The wallet holds 10 ether and 5000 units of
  every token, the network gas price is 25 gwei, every transaction is mined in block 100
  with status 1, and an address is any string of 42 characters.
\<close>

definition example_chain :: "nat chain" where
  "example_chain =
     \<lparr>to_checksum_address = (\<lambda>s. if length s = 42 then Inr s else Inl ValueError),
      clock = (\<lambda>w. (1700000000, Suc w)),
      eth_gas_price = (\<lambda>w. (Inr 25000000000, Suc w)),
      eth_get_balance = (\<lambda>a b w. (Inr 10000000000000000000, Suc w)),
      erc20_balanceOf = (\<lambda>t a b w. (Inr 5000, Suc w)),
      erc20_allowance = (\<lambda>t a r w. (Inr 0, Suc w)),
      eth_get_transaction_count = (\<lambda>a w. (Inr 7, Suc w)),
      send_transaction = (\<lambda>c p w. (Inr ''0xabc'', Suc w)),
      wait_for_transaction_receipt = (\<lambda>h w.
        (Inr \<lparr>status = 1, blockNumber = 100, gasUsed = 120000,
              effectiveGasPrice = 25000000000\<rparr>, Suc w))\<rparr>"

text \<open>
  A pool event with three price levels per direction; the liquidity amounts and the
  protocol name are left open.
\<close>

definition example_table :: price_table where
  "example_table =
     \<lparr>AtoBPrices = Some [\<lparr>SlippageBasisPoints = Some 100, Price = 1.9, MaxAmountIn = PInt 3000\<rparr>,
                         \<lparr>SlippageBasisPoints = Some 10, Price = 2.1, MaxAmountIn = PInt 1000\<rparr>,
                         \<lparr>SlippageBasisPoints = Some 50, Price = 2, MaxAmountIn = PInt 2000\<rparr>],
      BtoAPrices = Some [\<lparr>SlippageBasisPoints = Some 10, Price = 0.48, MaxAmountIn = PInt 500\<rparr>,
                         \<lparr>SlippageBasisPoints = Some 50, Price = 0.47, MaxAmountIn = PInt 800\<rparr>,
                         \<lparr>SlippageBasisPoints = Some 100, Price = 0.45, MaxAmountIn = PInt 900\<rparr>],
      pt_other_keys = False\<rparr>"

definition example_event :: "pyval \<Rightarrow> pyval \<Rightarrow> string \<Rightarrow> pool_event" where
  "example_event amount_a amount_b protocol =
     \<lparr>Pool = Some \<lparr>CurrencyA = Some \<lparr>SmartContract = Some ''0xC02aaA39b223FE8D0A0e5C4F27eAD9083C756Cc2'',
                                      Symbol = ''WETH'', Decimals = Some 18\<rparr>,
                   CurrencyB = Some \<lparr>SmartContract = Some ''0xA0b86991c6218b36c1d19D4a2e9Eb0cE3606eB48'',
                                      Symbol = ''USDC'', Decimals = Some 6\<rparr>,
                   PoolId = ''0xpool''\<rparr>,
      Liquidity = \<lparr>AmountCurrencyA = amount_a, AmountCurrencyB = amount_b, liq_other_keys = False\<rparr>,
      PoolPriceTable = example_table,
      ProtocolName = protocol,
      TransactionHeader_GasPrice = Some 20000000000,
      Header_BaseFee = None\<rparr>"

text \<open>
  Two events with one price level per direction. In the first the two ratios are
  \<open>1 / 3\<close> and \<open>(10^18 + 1) / (3 * 10^18)\<close>, which differ by less than the spacing of the
  doubles; in the second the first ratio is \<open>10^400\<close>, beyond every double.
\<close>

definition one_level_event :: "int \<Rightarrow> int \<Rightarrow> int \<Rightarrow> int \<Rightarrow> pool_event" where
  "one_level_event atob_max amount_a btoa_max amount_b =
     (example_event (PInt amount_a) (PInt amount_b) ''uniswap_v2'')
       \<lparr>PoolPriceTable :=
          \<lparr>AtoBPrices = Some [\<lparr>SlippageBasisPoints = Some 50, Price = 2, MaxAmountIn = PInt atob_max\<rparr>],
           BtoAPrices = Some [\<lparr>SlippageBasisPoints = Some 50, Price = 0.5, MaxAmountIn = PInt btoa_max\<rparr>],
           pt_other_keys = False\<rparr>\<rparr>"

definition close_ratio_event :: pool_event where
  "close_ratio_event = one_level_event 1 3 1000000000000000001 3000000000000000000"

definition overflow_ratio_event :: pool_event where
  "overflow_ratio_event = one_level_event (10 ^ 400) 1 1 1"


section \<open>Properties of the float model\<close>

lemma scale_down_spec:
  "scale_down r e = (r', e') \<Longrightarrow> 0 \<le> r \<Longrightarrow>
     r' * 2 powi e' = r * 2 powi e \<and> r' < 2 ^ 53 \<and> 0 \<le> r' \<and> e \<le> e' \<and> (e' = e \<or> 2 ^ 52 \<le> r')"
proof (induction r e arbitrary: r' e' rule: scale_down.induct)
  case (1 r e)
  show ?case
  proof (cases "2 ^ 53 \<le> r")
    case True
    then have "scale_down r e = scale_down (r / 2) (e + 1)"
      by (subst scale_down.simps) simp
    with "1.prems"(1) have s: "scale_down (r / 2) (e + 1) = (r', e')" by simp
    have nn: "0 \<le> r / 2" using "1.prems"(2) by simp
    from "1.IH"[OF True s nn]
    have ih: "r' * 2 powi e' = r / 2 * 2 powi (e + 1)" "r' < 2 ^ 53" "0 \<le> r'" "e + 1 \<le> e'"
      "e' = e + 1 \<or> 2 ^ 52 \<le> r'" by simp_all
    have "(2::real) powi (e + 1) = 2 powi e * 2 powi 1" by (rule power_int_add) simp
    then have p1: "(2::real) powi (e + 1) = 2 powi e * 2" by simp
    have "r / 2 * 2 powi (e + 1) = r / 2 * (2 powi e * 2)" by (simp only: p1)
    also have "\<dots> = r * 2 powi e" by simp
    finally have "r / 2 * 2 powi (e + 1) = r * 2 powi e" .
    with ih(1) have v: "r' * 2 powi e' = r * 2 powi e" by (simp only:)
    have big: "2 ^ 52 \<le> r'"
    proof (cases "e' = e + 1")
      case e1: True
      have "r' * 2 powi (e + 1) = r * 2 powi e" using v e1 by (simp only:)
      then have "r' * (2 powi e * 2) = r * 2 powi e" by (simp only: p1)
      then have "(r' * 2) * 2 powi e = r * 2 powi e" by (simp only: mult.assoc mult.commute)
      then have "r' * 2 = r" by simp
      with True show ?thesis by simp
    next
      case False
      with ih(5) show ?thesis by simp
    qed
    from ih(4) have le: "e \<le> e'" by simp
    from v ih(2) ih(3) le big show ?thesis by blast
  next
    case False
    then have "scale_down r e = (r, e)" by (subst scale_down.simps) simp
    with "1.prems" False show ?thesis by auto
  qed
qed

lemma scale_up_spec:
  "scale_up r e = (r', e') \<Longrightarrow> 0 \<le> r \<Longrightarrow> r < 2 ^ 53 \<Longrightarrow> - 1074 \<le> e \<Longrightarrow>
     r' * 2 powi e' = r * 2 powi e \<and> r' < 2 ^ 53 \<and> 0 \<le> r' \<and> - 1074 \<le> e' \<and> e' \<le> e
       \<and> (2 ^ 52 \<le> r' \<or> e' = - 1074)"
proof (induction r e arbitrary: r' e' rule: scale_up.induct)
  case (1 r e)
  show ?case
  proof (cases "r < 2 ^ 52 \<and> - 1074 < e")
    case True
    then have "scale_up r e = scale_up (2 * r) (e - 1)"
      by (subst scale_up.simps) simp
    with "1.prems"(1) have s: "scale_up (2 * r) (e - 1) = (r', e')" by simp
    have a: "0 \<le> 2 * r" "2 * r < 2 ^ 53" "- 1074 \<le> e - 1"
      using "1.prems" True by simp_all
    from "1.IH"[OF True s a]
    have ih: "r' * 2 powi e' = 2 * r * 2 powi (e - 1)" "r' < 2 ^ 53" "0 \<le> r'" "- 1074 \<le> e'"
      "e' \<le> e - 1" "2 ^ 52 \<le> r' \<or> e' = - 1074" by simp_all
    have "(2::real) powi (e - 1 + 1) = 2 powi (e - 1) * 2 powi 1" by (rule power_int_add) simp
    then have p1: "(2::real) powi e = 2 powi (e - 1) * 2" by simp
    have "r * 2 powi e = r * (2 powi (e - 1) * 2)" by (simp only: p1)
    also have "\<dots> = 2 * r * 2 powi (e - 1)" by (simp only: mult.assoc mult.commute mult.left_commute)
    finally have "2 * r * 2 powi (e - 1) = r * 2 powi e" by (rule sym)
    with ih(1) have v: "r' * 2 powi e' = r * 2 powi e" by (simp only:)
    from ih(5) have le: "e' \<le> e" by simp
    from v ih(2) ih(3) ih(4) le ih(6) show ?thesis by blast
  next
    case False
    then have "scale_up r e = (r, e)" by (subst scale_up.simps) auto
    with "1.prems" False show ?thesis by auto
  qed
qed


lemma round_half_even_bounds: "\<lfloor>r\<rfloor> \<le> round_half_even r \<and> round_half_even r \<le> \<lfloor>r\<rfloor> + 1"
  by (simp add: round_half_even_def Let_def)

lemma round_half_even_of_int: "round_half_even (of_int n) = n"
  by (simp add: round_half_even_def Let_def)

lemma round_half_even_le:
  assumes "r \<le> of_int n"
  shows "round_half_even r \<le> n"
proof (cases "r = of_int n")
  case True
  then show ?thesis by (simp add: round_half_even_of_int)
next
  case False
  with assms have "r < of_int n" by simp
  then have "\<lfloor>r\<rfloor> < n" by (simp add: floor_less_iff)
  with round_half_even_bounds[of r] show ?thesis by simp
qed

lemma round_half_even_ge:
  assumes "of_int n \<le> r"
  shows "n \<le> round_half_even r"
proof -
  from assms have "n \<le> \<lfloor>r\<rfloor>" by (simp add: le_floor_iff)
  with round_half_even_bounds[of r] show ?thesis by simp
qed

lemma round_half_even_mono:
  assumes "r \<le> s"
  shows "round_half_even r \<le> round_half_even s"
proof (cases "\<lfloor>r\<rfloor> = \<lfloor>s\<rfloor>")
  case True
  from assms have "r - of_int \<lfloor>r\<rfloor> \<le> s - of_int \<lfloor>r\<rfloor>" by simp
  with True show ?thesis by (auto simp: round_half_even_def Let_def)
next
  case False
  from assms have "\<lfloor>r\<rfloor> \<le> \<lfloor>s\<rfloor>" by (rule floor_mono)
  with False have "\<lfloor>r\<rfloor> + 1 \<le> \<lfloor>s\<rfloor>" by simp
  with round_half_even_bounds[of r] round_half_even_bounds[of s] show ?thesis by simp
qed

text \<open>The normal form the two loops reach for a positive real.\<close>

lemma normal_form:
  assumes "0 < x"
  shows "\<exists>r e. scale_up (fst (scale_down x 0)) (snd (scale_down x 0)) = (r, e)
           \<and> r * 2 powi e = x \<and> 0 \<le> r \<and> r < 2 ^ 53 \<and> - 1074 \<le> e
           \<and> (2 ^ 52 \<le> r \<or> e = - 1074)"
proof -
  obtain r1 e1 where d: "scale_down x 0 = (r1, e1)" by (cases "scale_down x 0") blast
  from scale_down_spec[OF d] assms
  have s1: "r1 * 2 powi e1 = x" "r1 < 2 ^ 53" "0 \<le> r1" "0 \<le> e1" by simp_all
  obtain r e where u: "scale_up r1 e1 = (r, e)" by (cases "scale_up r1 e1") blast
  have "- 1074 \<le> e1" using s1(4) by simp
  from scale_up_spec[OF u s1(3) s1(2) this]
  have s2: "r * 2 powi e = r1 * 2 powi e1" "r < 2 ^ 53" "0 \<le> r" "- 1074 \<le> e"
    "2 ^ 52 \<le> r \<or> e = - 1074" by simp_all
  from s2(1) s1(1) have "r * 2 powi e = x" by simp
  with d u s2 show ?thesis by simp
qed

lemma round_to_double_pos:
  assumes "0 < x"
  shows "\<exists>r e. round_to_double x =
             (if float_inf \<le> of_int (round_half_even r) * 2 powi e then float_inf
              else of_int (round_half_even r) * 2 powi e)
           \<and> r * 2 powi e = x \<and> 0 \<le> r \<and> r < 2 ^ 53 \<and> - 1074 \<le> e
           \<and> (2 ^ 52 \<le> r \<or> e = - 1074)"
proof -
  from normal_form[OF assms] obtain r e where
    n: "scale_up (fst (scale_down x 0)) (snd (scale_down x 0)) = (r, e)"
    and p: "r * 2 powi e = x" "0 \<le> r" "r < 2 ^ 53" "- 1074 \<le> e" "2 ^ 52 \<le> r \<or> e = - 1074"
    by blast
  have "round_to_double x =
             (if float_inf \<le> of_int (round_half_even r) * 2 powi e then float_inf
              else of_int (round_half_even r) * 2 powi e)"
    using assms n by (simp add: round_to_double_def Let_def split_beta)
  with p show ?thesis by blast
qed


lemma two_powi_mono: "a \<le> b \<Longrightarrow> (2::real) powi a \<le> 2 powi b"
  by (rule power_int_increasing) simp_all

lemma two_powi_pos: "0 < (2::real) powi a"
  by simp

lemma two_powi_Suc: "(2::real) powi (a + 1) = 2 * 2 powi a"
proof -
  have "(2::real) powi (a + 1) = 2 powi a * 2 powi 1" by (rule power_int_add) simp
  then show ?thesis by simp
qed

lemma round_to_double_mono_pos:
  assumes "0 < x" and "x \<le> y"
  shows "round_to_double x \<le> round_to_double y"
proof -
  from round_to_double_pos[OF assms(1)] obtain rx ex where
    fx: "round_to_double x =
             (if float_inf \<le> of_int (round_half_even rx) * 2 powi ex then float_inf
              else of_int (round_half_even rx) * 2 powi ex)"
    and px: "rx * 2 powi ex = x" "0 \<le> rx" "rx < 2 ^ 53" "- 1074 \<le> ex"
      "2 ^ 52 \<le> rx \<or> ex = - 1074" by blast
  from assms have "0 < y" by simp
  from round_to_double_pos[OF this] obtain ry ey where
    fy: "round_to_double y =
             (if float_inf \<le> of_int (round_half_even ry) * 2 powi ey then float_inf
              else of_int (round_half_even ry) * 2 powi ey)"
    and py: "ry * 2 powi ey = y" "0 \<le> ry" "ry < 2 ^ 53" "- 1074 \<le> ey"
      "2 ^ 52 \<le> ry \<or> ey = - 1074" by blast
  define vx where "vx = real_of_int (round_half_even rx) * 2 powi ex"
  define vy where "vy = real_of_int (round_half_even ry) * 2 powi ey"
  have le: "ex \<le> ey"
  proof (rule ccontr)
    assume "\<not> ex \<le> ey"
    then have gt: "ey + 1 \<le> ex" by simp
    with py(4) px(5) have big: "2 ^ 52 \<le> rx" by auto
    have "y < 2 ^ 53 * 2 powi ey"
      using py(1) py(3) two_powi_pos[of ey] by (metis mult_strict_right_mono)
    also have "\<dots> = 2 ^ 52 * (2 * 2 powi ey)" by simp
    also have "\<dots> = 2 ^ 52 * 2 powi (ey + 1)" by (simp only: two_powi_Suc)
    also have "\<dots> \<le> 2 ^ 52 * 2 powi ex"
      using two_powi_mono[OF gt] by simp
    also have "\<dots> \<le> rx * 2 powi ex"
      using big two_powi_pos[of ex] by (simp add: mult_right_mono)
    also have "\<dots> = x" by (rule px(1))
    finally show False using assms(2) by simp
  qed
  have v: "vx \<le> vy"
  proof (cases "ex = ey")
    case True
    have "rx * 2 powi ey \<le> ry * 2 powi ey" using px(1) py(1) assms(2) True by simp
    then have "rx \<le> ry" using two_powi_pos[of ey] by simp
    then have "round_half_even rx \<le> round_half_even ry" by (rule round_half_even_mono)
    then have "real_of_int (round_half_even rx) \<le> real_of_int (round_half_even ry)" by simp
    then show ?thesis unfolding vx_def vy_def True
      using two_powi_pos[of ey] by (simp add: mult_right_mono)
  next
    case False
    with le have lt: "ex + 1 \<le> ey" by simp
    with px(4) py(5) have big: "2 ^ 52 \<le> ry" by auto
    have "rx \<le> real_of_int (2 ^ 53)" using px(3) by simp
    then have "round_half_even rx \<le> 2 ^ 53" by (rule round_half_even_le)
    then have mx: "real_of_int (round_half_even rx) \<le> 2 ^ 53"
      by (metis of_int_le_iff of_int_numeral of_int_power)
    have "real_of_int (2 ^ 52) \<le> ry" using big by simp
    then have "2 ^ 52 \<le> round_half_even ry" by (rule round_half_even_ge)
    then have my: "2 ^ 52 \<le> real_of_int (round_half_even ry)"
      by (metis of_int_le_iff of_int_numeral of_int_power)
    have "vx \<le> 2 ^ 53 * 2 powi ex"
      unfolding vx_def using mx two_powi_pos[of ex] by (simp add: mult_right_mono)
    also have "\<dots> = 2 ^ 52 * (2 * 2 powi ex)" by simp
    also have "\<dots> = 2 ^ 52 * 2 powi (ex + 1)" by (simp only: two_powi_Suc)
    also have "\<dots> \<le> 2 ^ 52 * 2 powi ey" using two_powi_mono[OF lt] by simp
    also have "\<dots> \<le> vy"
      unfolding vy_def using my two_powi_pos[of ey] by (simp add: mult_right_mono)
    finally show ?thesis .
  qed
  have "round_to_double x = (if float_inf \<le> vx then float_inf else vx)"
    using fx by (simp only: vx_def)
  moreover have "round_to_double y = (if float_inf \<le> vy then float_inf else vy)"
    using fy by (simp only: vy_def)
  ultimately show ?thesis using v by auto
qed

lemma round_to_double_nonneg: "0 \<le> x \<Longrightarrow> 0 \<le> round_to_double x"
proof (cases "x = 0")
  case True
  then show ?thesis by (simp add: round_to_double_def)
next
  case False
  assume "0 \<le> x"
  with False have pos: "0 < x" by simp
  from round_to_double_pos[OF pos] obtain r e where
    f: "round_to_double x =
             (if float_inf \<le> of_int (round_half_even r) * 2 powi e then float_inf
              else of_int (round_half_even r) * 2 powi e)"
    and p: "0 \<le> r" by blast
  have "real_of_int 0 \<le> r" using p by simp
  then have "0 \<le> round_half_even r" by (rule round_half_even_ge)
  then have "0 \<le> real_of_int (round_half_even r) * 2 powi e" by simp
  moreover have "0 \<le> float_inf" by (simp add: float_inf_def)
  ultimately show ?thesis using f by simp
qed

lemma round_to_double_minus: "round_to_double (- x) = - round_to_double x"
  by (simp add: round_to_double_def Let_def sgn_minus split_beta)

lemma round_to_double_mono:
  assumes "x \<le> y"
  shows "round_to_double x \<le> round_to_double y"
proof (cases "0 < x")
  case True
  then show ?thesis using assms by (rule round_to_double_mono_pos)
next
  case False
  then have x0: "x \<le> 0" by simp
  show ?thesis
  proof (cases "0 \<le> y")
    case True
    from x0 have "0 \<le> round_to_double (- x)" by (intro round_to_double_nonneg) simp
    then have "round_to_double x \<le> 0" by (simp add: round_to_double_minus)
    also have "0 \<le> round_to_double y" using True by (rule round_to_double_nonneg)
    finally show ?thesis .
  next
    case ny: False
    then have "0 < - y" "- y \<le> - x" using assms by simp_all
    then have "round_to_double (- y) \<le> round_to_double (- x)" by (rule round_to_double_mono_pos)
    then show ?thesis by (simp add: round_to_double_minus)
  qed
qed


lemma pow_1023: "(2::real) ^ 53 * 2 powi 970 = 2 ^ 1023" "(2::real) ^ 52 * 2 powi 971 = 2 ^ 1023"
  "(2::real) ^ 52 * 2 powi 972 = 2 ^ 1024"
proof -
  have a: "(2::real) powi 970 = 2 ^ 970" "(2::real) powi 971 = 2 ^ 971" "(2::real) powi 972 = 2 ^ 972"
    by simp_all
  show "(2::real) ^ 53 * 2 powi 970 = 2 ^ 1023" unfolding a by (simp only: power_add[symmetric]) simp
  show "(2::real) ^ 52 * 2 powi 971 = 2 ^ 1023" unfolding a by (simp only: power_add[symmetric]) simp
  show "(2::real) ^ 52 * 2 powi 972 = 2 ^ 1024" unfolding a by (simp only: power_add[symmetric]) simp
qed

lemma round_to_double_bound_pos:
  assumes "0 < x" and "x \<le> 2 ^ 1023"
  shows "round_to_double x \<le> 2 ^ 1023"
proof -
  from round_to_double_pos[OF assms(1)] obtain r e where
    f: "round_to_double x =
             (if float_inf \<le> of_int (round_half_even r) * 2 powi e then float_inf
              else of_int (round_half_even r) * 2 powi e)"
    and p: "r * 2 powi e = x" "0 \<le> r" "r < 2 ^ 53" "- 1074 \<le> e"
      "2 ^ 52 \<le> r \<or> e = - 1074" by blast
  define v where "v = real_of_int (round_half_even r) * 2 powi e"
  have "r \<le> real_of_int (2 ^ 53)" using p(3) by simp
  then have "round_half_even r \<le> 2 ^ 53" by (rule round_half_even_le)
  then have m53: "real_of_int (round_half_even r) \<le> 2 ^ 53"
    by (metis of_int_le_iff of_int_numeral of_int_power)
  have vb: "v \<le> 2 ^ 1023"
  proof (cases "e \<le> 970")
    case True
    have "v \<le> 2 ^ 53 * 2 powi e"
      unfolding v_def using m53 two_powi_pos[of e] by (simp add: mult_right_mono)
    also have "\<dots> \<le> 2 ^ 53 * 2 powi 970" using two_powi_mono[OF True] by simp
    also have "\<dots> = 2 ^ 1023" by (rule pow_1023)
    finally show ?thesis .
  next
    case False
    then have e971: "971 \<le> e" by simp
    with p(5) have big: "2 ^ 52 \<le> r" by auto
    have "\<not> 972 \<le> e"
    proof
      assume a: "972 \<le> e"
      have "(2::real) ^ 1024 = 2 ^ 52 * 2 powi 972" by (rule pow_1023(3)[symmetric])
      also have "\<dots> \<le> 2 ^ 52 * 2 powi e" using two_powi_mono[OF a] by simp
      also have "\<dots> \<le> r * 2 powi e" using big two_powi_pos[of e] by (simp add: mult_right_mono)
      also have "\<dots> = x" by (rule p(1))
      also have "\<dots> \<le> 2 ^ 1023" by (rule assms(2))
      finally show False by simp
    qed
    with e971 have e: "e = 971" by simp
    have "r * 2 powi 971 \<le> 2 ^ 52 * 2 powi 971"
      using p(1) assms(2) e by (simp only: pow_1023)
    then have "r \<le> 2 ^ 52" using two_powi_pos[of 971] by (simp only: mult_le_cancel_right_pos)
    then have "r \<le> real_of_int (2 ^ 52)" by simp
    then have "round_half_even r \<le> 2 ^ 52" by (rule round_half_even_le)
    then have "real_of_int (round_half_even r) \<le> 2 ^ 52"
      by (metis of_int_le_iff of_int_numeral of_int_power)
    then have "v \<le> 2 ^ 52 * 2 powi 971"
      unfolding v_def e using two_powi_pos[of 971] by (simp only: mult_right_mono less_imp_le)
    then show ?thesis by (simp only: pow_1023)
  qed
  have "(2::real) ^ 1023 < 2 ^ 1024" by (rule power_strict_increasing) simp_all
  with vb have "\<not> float_inf \<le> v" by (simp add: float_inf_def)
  with f have "round_to_double x = v" by (simp only: v_def[symmetric] if_False)
  with vb show ?thesis by simp
qed

lemma round_to_double_finite:
  assumes "\<bar>x\<bar> \<le> 2 ^ 1023"
  shows "\<bar>round_to_double x\<bar> \<noteq> float_inf"
proof -
  have lt: "(2::real) ^ 1023 < float_inf"
    unfolding float_inf_def by (rule power_strict_increasing) simp_all
  have "\<bar>round_to_double x\<bar> \<le> 2 ^ 1023"
  proof (cases "x = 0")
    case True
    then show ?thesis by (simp add: round_to_double_def)
  next
    case False
    show ?thesis
    proof (cases "0 < x")
      case True
      with assms have "round_to_double x \<le> 2 ^ 1023" by (intro round_to_double_bound_pos) simp_all
      moreover have "0 \<le> round_to_double x" using True by (intro round_to_double_nonneg) simp
      ultimately show ?thesis by simp
    next
      case neg: False
      with False have "0 < - x" by simp
      moreover have "- x \<le> 2 ^ 1023" using assms by simp
      ultimately have "round_to_double (- x) \<le> 2 ^ 1023" by (rule round_to_double_bound_pos)
      moreover have "0 \<le> round_to_double (- x)" using \<open>0 < - x\<close> by (intro round_to_double_nonneg) simp
      ultimately show ?thesis by (simp add: round_to_double_minus)
    qed
  qed
  with lt show ?thesis by simp
qed

lemma py_float_of_int_ok:
  assumes "\<bar>a\<bar> \<le> 2 ^ 1023"
  shows "py_float_of_int a = Inr (round_to_double (of_int a))"
proof -
  have "\<bar>real_of_int a\<bar> \<le> real_of_int (2 ^ 1023)"
    using assms by (metis of_int_abs of_int_le_iff)
  then have "\<bar>real_of_int a\<bar> \<le> 2 ^ 1023" by simp
  then have "\<bar>round_to_double (of_int a)\<bar> \<noteq> float_inf" by (rule round_to_double_finite)
  then show ?thesis by (simp add: py_float_of_int_def Let_def)
qed

lemma round_to_double_le_inf: "round_to_double x \<le> float_inf"
proof (cases "0 < x")
  case True
  from round_to_double_pos[OF True] show ?thesis by auto
next
  case False
  then have "0 \<le> - x" by simp
  then have "0 \<le> round_to_double (- x)" by (rule round_to_double_nonneg)
  then have "round_to_double x \<le> 0" by (simp add: round_to_double_minus)
  moreover have "(0::real) \<le> float_inf" by (simp add: float_inf_def)
  ultimately show ?thesis by simp
qed

lemma round_to_double_inf: "round_to_double float_inf = float_inf"
proof -
  have pos: "0 < float_inf" by (simp add: float_inf_def)
  from round_to_double_pos[OF pos] obtain r e where
    f: "round_to_double float_inf =
             (if float_inf \<le> of_int (round_half_even r) * 2 powi e then float_inf
              else of_int (round_half_even r) * 2 powi e)"
    and v: "r * 2 powi e = float_inf" and r0: "0 \<le> r" and r53: "r < 2 ^ 53"
    and e0: "- 1074 \<le> e" and n: "2 ^ 52 \<le> r \<or> e = - 1074" by blast
  have e972: "972 \<le> e"
  proof (rule ccontr)
    assume "\<not> 972 \<le> e"
    then have "e \<le> 971" by simp
    then have "(2::real) powi e \<le> 2 powi 971" by (rule two_powi_mono)
    then have "r * 2 powi e \<le> r * 2 powi 971" using r0 by (rule mult_left_mono)
    also have "\<dots> < 2 ^ 53 * 2 powi 971" using r53 two_powi_pos[of 971] by (rule mult_strict_right_mono)
    also have "\<dots> = 2 * (2 ^ 52 * 2 powi 971)" by simp
    also have "\<dots> = 2 * 2 ^ 1023" by (simp only: pow_1023)
    also have "\<dots> = float_inf" by (simp add: float_inf_def)
    finally show False using v by simp
  qed
  with n have "2 ^ 52 \<le> r" by auto
  then have "real_of_int (2 ^ 52) \<le> r" by simp
  then have "2 ^ 52 \<le> round_half_even r" by (rule round_half_even_ge)
  then have "real_of_int (2 ^ 52) \<le> real_of_int (round_half_even r)" by (simp only: of_int_le_iff)
  then have a: "2 ^ 52 \<le> real_of_int (round_half_even r)" by simp
  have "float_inf = 2 ^ 52 * 2 powi 972" by (simp only: pow_1023 float_inf_def)
  also have "\<dots> \<le> 2 ^ 52 * 2 powi e" using two_powi_mono[OF e972] by simp
  also have "\<dots> \<le> real_of_int (round_half_even r) * 2 powi e"
    using a two_powi_pos[of e] by (simp add: mult_right_mono)
  finally show ?thesis using f by simp
qed

lemma py_float_of_int_overflow:
  assumes "2 ^ 1024 \<le> a"
  shows "py_float_of_int a = Inl OverflowError"
proof -
  have "real_of_int (2 ^ 1024) \<le> real_of_int a" using assms by (simp only: of_int_le_iff)
  then have "float_inf \<le> real_of_int a" by (simp add: float_inf_def)
  then have "round_to_double float_inf \<le> round_to_double (real_of_int a)" by (rule round_to_double_mono)
  then have "float_inf \<le> round_to_double (real_of_int a)" by (simp only: round_to_double_inf)
  with round_to_double_le_inf[of "real_of_int a"] have e: "round_to_double (real_of_int a) = float_inf" by simp
  have "(0::real) < float_inf" by (simp add: float_inf_def)
  with e show ?thesis by (simp add: py_float_of_int_def Let_def)
qed

section \<open>Verified properties: price lookup\<close>

lemma first_match_Some:
  "first_match es t = Some e \<Longrightarrow>
     \<exists>pre post. es = pre @ e # post \<and> SlippageBasisPoints e = Some t \<and>
       (\<forall>x\<in>set pre. SlippageBasisPoints x \<noteq> Some t)"
proof (induction es)
  case Nil
  then show ?case by simp
next
  case (Cons a es)
  show ?case
  proof (cases "SlippageBasisPoints a = Some t")
    case True
    with Cons.prems have "a = e" by simp
    with True have "a # es = [] @ e # es \<and> SlippageBasisPoints e = Some t \<and>
       (\<forall>x\<in>set []. SlippageBasisPoints x \<noteq> Some t)" by simp
    then show ?thesis by blast
  next
    case False
    with Cons.prems have "first_match es t = Some e" by simp
    from Cons.IH[OF this] obtain pre post where
      h: "es = pre @ e # post" "SlippageBasisPoints e = Some t"
         "\<forall>x\<in>set pre. SlippageBasisPoints x \<noteq> Some t" by blast
    with False have "a # es = (a # pre) @ e # post \<and> SlippageBasisPoints e = Some t \<and>
       (\<forall>x\<in>set (a # pre). SlippageBasisPoints x \<noteq> Some t)" by simp
    then show ?thesis by blast
  qed
qed

lemma first_match_None:
  "(first_match es t = None) = (\<forall>x\<in>set es. SlippageBasisPoints x \<noteq> Some t)"
  by (induction es) auto

text \<open>
  Claim C8. For every price table, direction and target: when the direction's bucket has an
  entry whose \<open>SlippageBasisPoints\<close> equals the target, \<open>get_price_for_slippage\<close>
  returns the first such entry in bucket order (every entry before it has another value);
  when the bucket is not empty and no entry matches, it returns the bucket's first entry,
  whatever its slippage; when the bucket is absent or empty it returns \<open>None\<close>.
\<close>

theorem get_price_for_slippage_exact_or_first:
  "(\<forall>prices. prices_key pt d = Some prices \<and>
       (\<exists>x\<in>set prices. SlippageBasisPoints x = Some target) \<longrightarrow>
       (\<exists>pre e post. prices = pre @ e # post \<and> SlippageBasisPoints e = Some target \<and>
          (\<forall>x\<in>set pre. SlippageBasisPoints x \<noteq> Some target) \<and>
          get_price_for_slippage pt d target = Some e))
   \<and> (\<forall>e es. prices_key pt d = Some (e # es) \<and>
          (\<forall>x\<in>set (e # es). SlippageBasisPoints x \<noteq> Some target) \<longrightarrow>
          get_price_for_slippage pt d target = Some e)
   \<and> (prices_key pt d = None \<or> prices_key pt d = Some [] \<longrightarrow>
          get_price_for_slippage pt d target = None)"
proof (intro conjI allI impI)
  fix prices
  assume a: "prices_key pt d = Some prices \<and>
       (\<exists>x\<in>set prices. SlippageBasisPoints x = Some target)"
  then have "first_match prices target \<noteq> None"
    by (simp add: first_match_None)
  then obtain e where e: "first_match prices target = Some e" by blast
  from first_match_Some[OF e] obtain pre post where
    "prices = pre @ e # post" "SlippageBasisPoints e = Some target"
    "\<forall>x\<in>set pre. SlippageBasisPoints x \<noteq> Some target" by blast
  moreover from a e have "get_price_for_slippage pt d target = Some e"
    by (simp add: get_price_for_slippage_def)
  ultimately show "\<exists>pre e post. prices = pre @ e # post \<and> SlippageBasisPoints e = Some target \<and>
          (\<forall>x\<in>set pre. SlippageBasisPoints x \<noteq> Some target) \<and>
          get_price_for_slippage pt d target = Some e" by blast
next
  fix e es
  assume a: "prices_key pt d = Some (e # es) \<and>
          (\<forall>x\<in>set (e # es). SlippageBasisPoints x \<noteq> Some target)"
  then have "first_match (e # es) target = None"
    using first_match_None[of "e # es" target] by blast
  with a show "get_price_for_slippage pt d target = Some e"
    by (simp add: get_price_for_slippage_def)
next
  assume "prices_key pt d = None \<or> prices_key pt d = Some []"
  then show "get_price_for_slippage pt d target = None"
    by (auto simp: get_price_for_slippage_def)
qed

text \<open>
  The theorem at a bucket with slippages 10, 50, 50 (the two entries at 50 differ in price):
  target 50 finds the first of the two, target 70 falls back to the entry at 10.
\<close>

theorem get_price_for_slippage_exact_or_first_witness:
  "get_price_for_slippage
     \<lparr>AtoBPrices = Some [\<lparr>SlippageBasisPoints = Some 10, Price = 1, MaxAmountIn = PNone\<rparr>,
                         \<lparr>SlippageBasisPoints = Some 50, Price = 2, MaxAmountIn = PNone\<rparr>,
                         \<lparr>SlippageBasisPoints = Some 50, Price = 3, MaxAmountIn = PNone\<rparr>],
      BtoAPrices = None, pt_other_keys = False\<rparr> AtoB 50
     = Some \<lparr>SlippageBasisPoints = Some 50, Price = 2, MaxAmountIn = PNone\<rparr>
   \<and> get_price_for_slippage
     \<lparr>AtoBPrices = Some [\<lparr>SlippageBasisPoints = Some 10, Price = 1, MaxAmountIn = PNone\<rparr>,
                         \<lparr>SlippageBasisPoints = Some 50, Price = 2, MaxAmountIn = PNone\<rparr>,
                         \<lparr>SlippageBasisPoints = Some 50, Price = 3, MaxAmountIn = PNone\<rparr>],
      BtoAPrices = None, pt_other_keys = False\<rparr> AtoB 70
     = Some \<lparr>SlippageBasisPoints = Some 10, Price = 1, MaxAmountIn = PNone\<rparr>
   \<and> get_price_for_slippage
     \<lparr>AtoBPrices = Some [\<lparr>SlippageBasisPoints = Some 10, Price = 1, MaxAmountIn = PNone\<rparr>,
                         \<lparr>SlippageBasisPoints = Some 50, Price = 2, MaxAmountIn = PNone\<rparr>,
                         \<lparr>SlippageBasisPoints = Some 50, Price = 3, MaxAmountIn = PNone\<rparr>],
      BtoAPrices = None, pt_other_keys = False\<rparr> BtoA 50
     = None"
proof -
  let ?e1 = "\<lparr>SlippageBasisPoints = Some 10, Price = 1, MaxAmountIn = PNone\<rparr>"
  let ?e2 = "\<lparr>SlippageBasisPoints = Some 50, Price = 2, MaxAmountIn = PNone\<rparr>"
  let ?e3 = "\<lparr>SlippageBasisPoints = Some 50, Price = 3, MaxAmountIn = PNone\<rparr>"
  let ?pt = "\<lparr>AtoBPrices = Some [?e1, ?e2, ?e3], BtoAPrices = None, pt_other_keys = False\<rparr>"
  have none: "get_price_for_slippage ?pt BtoA 50 = None"
    using get_price_for_slippage_exact_or_first[of ?pt BtoA 50] by simp
  have fallback: "get_price_for_slippage ?pt AtoB 70 = Some ?e1"
    using get_price_for_slippage_exact_or_first[of ?pt AtoB 70] by simp
  from get_price_for_slippage_exact_or_first[of ?pt AtoB 50]
  obtain pre e post where
    h: "[?e1, ?e2, ?e3] = pre @ e # post" "SlippageBasisPoints e = Some 50"
       "\<forall>x\<in>set pre. SlippageBasisPoints x \<noteq> Some 50"
       "get_price_for_slippage ?pt AtoB 50 = Some e"
    by auto
  have "e = ?e2"
  proof (cases pre)
    case Nil
    with h(1,2) show ?thesis by auto
  next
    case (Cons a pre')
    with h(1) have a: "a = ?e1" and r: "[?e2, ?e3] = pre' @ e # post" by simp_all
    show ?thesis
    proof (cases pre')
      case Nil
      with r show ?thesis by auto
    next
      case (Cons b pre'')
      with r have "b = ?e2" by simp
      with Cons \<open>pre = a # pre'\<close> h(3) show ?thesis by simp
    qed
  qed
  with h(4) have exact: "get_price_for_slippage ?pt AtoB 50 = Some ?e2" by simp
  from exact fallback none show ?thesis by simp
qed


section \<open>Verified properties: median slippage\<close>

lemma collect_slippages_eq:
  "collect_slippages es = map the (filter (\<lambda>v. v \<noteq> None) (map SlippageBasisPoints es))"
  by (induction es) (auto split: option.splits)

lemma sort_nth_bounds:
  fixes xs :: "int list"
  assumes "i < length xs"
  shows "sort xs ! i \<in> set xs \<and> Min (set xs) \<le> sort xs ! i \<and> sort xs ! i \<le> Max (set xs)"
proof -
  from assms have "i < length (sort xs)" by simp
  then have "sort xs ! i \<in> set (sort xs)" by (rule nth_mem)
  then have m: "sort xs ! i \<in> set xs" by simp
  then show ?thesis by simp
qed

lemma median_low_le_high:
  fixes xs :: "int list"
  assumes "xs \<noteq> []"
  shows "median_low xs \<le> median_high xs"
proof -
  have "sorted (sort xs)" by simp
  moreover have "(length xs - 1) div 2 \<le> length xs div 2" by simp
  moreover have "length xs div 2 < length (sort xs)" using assms by simp
  ultimately show ?thesis
    unfolding median_low_def median_high_def by (rule sorted_nth_mono)
qed

text \<open>
  Claim C4, as amended. When the direction's bucket has at least one entry with a defined
  \<open>SlippageBasisPoints\<close> (the values \<open>collect_slippages prices\<close>, \<open>n\<close> of them, duplicates
  kept), \<open>get_median_slippage_bps\<close> returns the element at index \<open>n div 2\<close> of the
  ascending-sorted values. That is the upper median (\<open>median_high\<close>): for an even count the
  lower median sits one index below and is never greater. The result is one of the values
  and lies between their minimum and maximum.
\<close>

theorem get_median_slippage_bps_upper_median:
  assumes "prices_key pt d = Some prices" and "collect_slippages prices \<noteq> []"
  shows "get_median_slippage_bps pt d
           = Some (sort (collect_slippages prices) ! (length (collect_slippages prices) div 2))
       \<and> get_median_slippage_bps pt d = Some (median_high (collect_slippages prices))
       \<and> median_high (collect_slippages prices) \<in> set (collect_slippages prices)
       \<and> Min (set (collect_slippages prices)) \<le> median_high (collect_slippages prices)
       \<and> median_high (collect_slippages prices) \<le> Max (set (collect_slippages prices))
       \<and> median_low (collect_slippages prices) \<le> median_high (collect_slippages prices)
       \<and> (even (length (collect_slippages prices)) \<longrightarrow>
            median_low (collect_slippages prices)
              = sort (collect_slippages prices) ! (length (collect_slippages prices) div 2 - 1))"
proof -
  let ?vs = "collect_slippages prices"
  from assms(2) have ne: "prices \<noteq> []" by auto
  from assms ne have r: "get_median_slippage_bps pt d = Some (sort ?vs ! (length ?vs div 2))"
    by (simp add: get_median_slippage_bps_def Let_def)
  from assms(2) have lt: "length ?vs div 2 < length ?vs" by simp
  note b = sort_nth_bounds[OF lt]
  have ev: "even (length ?vs) \<longrightarrow> (length ?vs - 1) div 2 = length ?vs div 2 - 1"
  proof
    assume "even (length ?vs)"
    then obtain k where k: "length ?vs = 2 * k" by (auto elim: evenE)
    with assms(2) have "0 < k" by (cases k) auto
    with k show "(length ?vs - 1) div 2 = length ?vs div 2 - 1" by simp
  qed
  from r b median_low_le_high[OF assms(2)] ev show ?thesis
    by (simp add: median_high_def median_low_def)
qed

text \<open>
  Claim C4 as stated calls the result the lower median for even counts. With the two values
  50 and 10 the function returns 50, while the lower median is 10.
\<close>

theorem get_median_slippage_bps_lower_median_counterexample:
  "prices_key \<lparr>AtoBPrices = Some [\<lparr>SlippageBasisPoints = Some 50, Price = 1, MaxAmountIn = PNone\<rparr>,
                                  \<lparr>SlippageBasisPoints = Some 10, Price = 1, MaxAmountIn = PNone\<rparr>],
               BtoAPrices = None, pt_other_keys = False\<rparr> AtoB
     = Some [\<lparr>SlippageBasisPoints = Some 50, Price = 1, MaxAmountIn = PNone\<rparr>,
             \<lparr>SlippageBasisPoints = Some 10, Price = 1, MaxAmountIn = PNone\<rparr>]
   \<and> collect_slippages [\<lparr>SlippageBasisPoints = Some 50, Price = 1, MaxAmountIn = PNone\<rparr>,
                        \<lparr>SlippageBasisPoints = Some 10, Price = 1, MaxAmountIn = PNone\<rparr>] = [50, 10]
   \<and> get_median_slippage_bps
        \<lparr>AtoBPrices = Some [\<lparr>SlippageBasisPoints = Some 50, Price = 1, MaxAmountIn = PNone\<rparr>,
                            \<lparr>SlippageBasisPoints = Some 10, Price = 1, MaxAmountIn = PNone\<rparr>],
         BtoAPrices = None, pt_other_keys = False\<rparr> AtoB = Some 50
   \<and> median_low [50, 10] = 10
   \<and> get_median_slippage_bps
        \<lparr>AtoBPrices = Some [\<lparr>SlippageBasisPoints = Some 50, Price = 1, MaxAmountIn = PNone\<rparr>,
                            \<lparr>SlippageBasisPoints = Some 10, Price = 1, MaxAmountIn = PNone\<rparr>],
         BtoAPrices = None, pt_other_keys = False\<rparr> AtoB \<noteq> Some (median_low [50, 10])"
  by (simp add: get_median_slippage_bps_def median_low_def)

text \<open>The amended statement at a bucket with the values 50, 10, 100, 30 and one entry without a value.\<close>

theorem get_median_slippage_bps_upper_median_witness:
  "get_median_slippage_bps
        \<lparr>AtoBPrices = Some [\<lparr>SlippageBasisPoints = Some 50, Price = 1, MaxAmountIn = PNone\<rparr>,
                            \<lparr>SlippageBasisPoints = None, Price = 1, MaxAmountIn = PNone\<rparr>,
                            \<lparr>SlippageBasisPoints = Some 10, Price = 1, MaxAmountIn = PNone\<rparr>,
                            \<lparr>SlippageBasisPoints = Some 100, Price = 1, MaxAmountIn = PNone\<rparr>,
                            \<lparr>SlippageBasisPoints = Some 30, Price = 1, MaxAmountIn = PNone\<rparr>],
         BtoAPrices = None, pt_other_keys = False\<rparr> AtoB = Some 50
   \<and> median_high [50, 10, 100, 30] = 50 \<and> median_low [50, 10, 100, 30] = 30"
proof -
  let ?ps = "[\<lparr>SlippageBasisPoints = Some 50, Price = 1, MaxAmountIn = PNone\<rparr>,
                            \<lparr>SlippageBasisPoints = None, Price = 1, MaxAmountIn = PNone\<rparr>,
                            \<lparr>SlippageBasisPoints = Some 10, Price = 1, MaxAmountIn = PNone\<rparr>,
                            \<lparr>SlippageBasisPoints = Some 100, Price = 1, MaxAmountIn = PNone\<rparr>,
                            \<lparr>SlippageBasisPoints = Some 30, Price = 1, MaxAmountIn = PNone\<rparr>]"
  let ?pt = "\<lparr>AtoBPrices = Some ?ps, BtoAPrices = None, pt_other_keys = False\<rparr>"
  have k: "prices_key ?pt AtoB = Some ?ps" by simp
  have c: "collect_slippages ?ps = [50, 10, 100, 30]" by simp
  then have ne: "collect_slippages ?ps \<noteq> []" by simp
  have s: "sort [50, 10, 100, 30 :: int] = [10, 30, 50, 100]" by simp
  from get_median_slippage_bps_upper_median[OF k ne] c s show ?thesis
    by (simp add: median_high_def median_low_def)
qed


section \<open>Verified properties: gas price policy\<close>

lemma to_wei_gwei_range: "to_wei_gwei x = Inr f \<Longrightarrow> 0 \<le> f \<and> f \<le> MAX_WEI"
  by (auto simp: to_wei_gwei_def Let_def floor_le_iff split: if_splits)

lemma MAX_WEI_float: "MAX_WEI \<le> 2 ^ 1023"
proof -
  have "(2::int) ^ 256 \<le> 2 ^ 1023" by (rule power_increasing) simp_all
  then show ?thesis by (simp add: MAX_WEI_def)
qed

lemma log_gwei_ok: "\<bar>p\<bar> \<le> 2 ^ 1023 \<Longrightarrow> log_gwei p w = (Inr (), w)"
  by (simp add: log_gwei_def py_float_of_int_ok bindE_def liftE_def returnE_def)

lemma log_gwei_raises: "py_float_of_int p = Inl e \<Longrightarrow> log_gwei p w = (Inl e, w)"
  by (simp add: log_gwei_def bindE_def liftE_def)

lemma log_gwei_unit: "log_gwei p w = (Inr u, w') \<Longrightarrow> w' = w"
  by (auto simp: log_gwei_def bindE_def liftE_def returnE_def split: sum.splits)

lemma to_wei_gwei_30: "to_wei_gwei 30 = Inr 30000000000"
  by (simp add: to_wei_gwei_def MAX_WEI_def)

lemma get_gas_price_stream:
  assumes "to_wei_gwei (max_gas_price_gwei gm) = Inr m" and "\<bar>s\<bar> \<le> 2 ^ 1023"
  shows "get_gas_price ch gm (Some s) w = (Inr (if s \<le> m then s else m), w)"
  using assms
  by (simp add: get_gas_price_def bindE_def liftE_def returnE_def log_gwei_ok)

lemma get_gas_price_stream_max_raises:
  assumes "to_wei_gwei (max_gas_price_gwei gm) = Inl e"
  shows "get_gas_price ch gm (Some s) w = (Inl e, w)"
  using assms by (simp add: get_gas_price_def bindE_def liftE_def)

lemma get_gas_price_stream_log_raises:
  assumes "to_wei_gwei (max_gas_price_gwei gm) = Inr m" and "py_float_of_int s = Inl e"
  shows "get_gas_price ch gm (Some s) w = (Inl e, w)"
  using assms
  by (simp add: get_gas_price_def bindE_def liftE_def log_gwei_raises)

lemma get_gas_price_fixed:
  assumes "gas_price_gwei gm = Some g" and "g \<noteq> 0"
  shows "get_gas_price ch gm None w = (to_wei_gwei g, w)"
proof (cases "to_wei_gwei g")
  case (Inl e)
  with assms show ?thesis by (simp add: get_gas_price_def bindE_def liftE_def Let_def)
next
  case (Inr f)
  from to_wei_gwei_range[OF Inr] MAX_WEI_float have "\<bar>f\<bar> \<le> 2 ^ 1023" by simp
  then have "log_gwei f w = (Inr (), w)" by (rule log_gwei_ok)
  with assms Inr show ?thesis
    by (simp add: get_gas_price_def bindE_def liftE_def returnE_def Let_def)
qed

text \<open>The third tier, as a function of what the network query answers.\<close>

lemma get_gas_price_network:
  assumes "gas_price_gwei gm = None \<or> gas_price_gwei gm = Some 0"
  shows "fst (get_gas_price ch gm None w) =
     (case fst (eth_gas_price ch w) of
        Inl e \<Rightarrow> Inr 30000000000
      | Inr gp \<Rightarrow>
          (case to_wei_gwei (max_gas_price_gwei gm) of
             Inl e \<Rightarrow> Inr 30000000000
           | Inr m \<Rightarrow>
               (case py_float_of_int gp of
                  Inl e \<Rightarrow> Inr 30000000000
                | Inr v \<Rightarrow> Inr (if gp \<le> m then gp else m))))"
proof -
  obtain r w1 where q: "eth_gas_price ch w = (r, w1)" by (cases "eth_gas_price ch w") blast
  have lg: "\<And>p. log_gwei p w1 = (case py_float_of_int p of Inl e \<Rightarrow> (Inl e, w1) | Inr v \<Rightarrow> (Inr (), w1))"
    by (simp add: log_gwei_def bindE_def liftE_def returnE_def split: sum.splits)
  from assms show ?thesis
    by (auto simp: get_gas_price_def Let_def try_except_def bindE_def liftE_def returnE_def q lg
          to_wei_gwei_30 split: sum.splits)
qed

lemma to_wei_gwei_ok:
  "0 \<le> x \<Longrightarrow> x * 1000000000 \<le> of_int MAX_WEI \<Longrightarrow> to_wei_gwei x = Inr \<lfloor>x * 1000000000\<rfloor>"
  by (simp add: to_wei_gwei_def Let_def)

lemma to_wei_gwei_raises:
  "x < 0 \<or> of_int MAX_WEI < x * 1000000000 \<Longrightarrow> to_wei_gwei x = Inl ValueError"
  by (auto simp: to_wei_gwei_def Let_def)

text \<open>
  Claim C3, amended. \<open>get_gas_price\<close> follows three tiers, and the first two can raise.
  (1) With a stream gas price, the configured maximum is converted to wei first. When the
  maximum is a valid amount (between 0 and \<open>2^256 - 1\<close> wei) and the stream price is within
  the doubles, the stream price is returned unchanged when it is at most the maximum, and
  the maximum itself when the stream price exceeds it. When the maximum is negative or
  beyond \<open>2^256 - 1\<close> wei the call raises \<^verbatim>\<open>ValueError\<close>, and when the stream price is \<open>2^1024\<close> or
  more the log line raises \<^verbatim>\<open>OverflowError\<close>.
  (2) Without a stream price, a fixed operator price that is set and not zero (the code's test
  is \<^verbatim>\<open>if self.gas_price_gwei\<close>) is returned as its wei conversion, never compared against
  the maximum; when that conversion is out of range the call raises \<^verbatim>\<open>ValueError\<close>.
  (3) Otherwise, which includes a fixed price of zero, the network price is returned capped
  at the maximum; the fallback of 30 gwei is returned when the network query raises, when
  the maximum is out of range, or when the log line overflows. This tier never raises.
  The call returns a value whenever the amounts in use are valid: a stream price within the
  doubles with a valid maximum, or a valid fixed price.
\<close>

theorem get_gas_price_three_tiers_amended:
  "(\<forall>s. stream = Some s \<longrightarrow>
      fst (get_gas_price ch gm stream w) =
        (case to_wei_gwei (max_gas_price_gwei gm) of
           Inl e \<Rightarrow> Inl e
         | Inr m \<Rightarrow> (case py_float_of_int s of
                       Inl e \<Rightarrow> Inl e
                     | Inr v \<Rightarrow> Inr (if s \<le> m then s else m))))
   \<and> (\<forall>s. stream = Some s \<and> 0 \<le> max_gas_price_gwei gm
           \<and> max_gas_price_gwei gm * 1000000000 \<le> of_int MAX_WEI \<and> \<bar>s\<bar> \<le> 2 ^ 1023 \<longrightarrow>
      fst (get_gas_price ch gm stream w) =
        Inr (if s \<le> \<lfloor>max_gas_price_gwei gm * 1000000000\<rfloor> then s
             else \<lfloor>max_gas_price_gwei gm * 1000000000\<rfloor>))
   \<and> (\<forall>s. stream = Some s \<and> (max_gas_price_gwei gm < 0
           \<or> of_int MAX_WEI < max_gas_price_gwei gm * 1000000000) \<longrightarrow>
      fst (get_gas_price ch gm stream w) = Inl ValueError)
   \<and> (\<forall>s. stream = Some s \<and> 0 \<le> max_gas_price_gwei gm
           \<and> max_gas_price_gwei gm * 1000000000 \<le> of_int MAX_WEI \<and> 2 ^ 1024 \<le> s \<longrightarrow>
      fst (get_gas_price ch gm stream w) = Inl OverflowError)
   \<and> (\<forall>g. stream = None \<and> gas_price_gwei gm = Some g \<and> g \<noteq> 0 \<longrightarrow>
      fst (get_gas_price ch gm stream w) =
        (if g < 0 \<or> of_int MAX_WEI < g * 1000000000 then Inl ValueError
         else Inr \<lfloor>g * 1000000000\<rfloor>))
   \<and> (stream = None \<and> (gas_price_gwei gm = None \<or> gas_price_gwei gm = Some 0) \<longrightarrow>
      fst (get_gas_price ch gm stream w) =
        (case fst (eth_gas_price ch w) of
           Inl e \<Rightarrow> Inr 30000000000
         | Inr gp \<Rightarrow>
             if max_gas_price_gwei gm < 0 \<or> of_int MAX_WEI < max_gas_price_gwei gm * 1000000000
             then Inr 30000000000
             else (case py_float_of_int gp of
                     Inl e \<Rightarrow> Inr 30000000000
                   | Inr v \<Rightarrow> Inr (if gp \<le> \<lfloor>max_gas_price_gwei gm * 1000000000\<rfloor> then gp
                                   else \<lfloor>max_gas_price_gwei gm * 1000000000\<rfloor>))))
   \<and> (\<forall>gp. stream = None \<and> (gas_price_gwei gm = None \<or> gas_price_gwei gm = Some 0)
           \<and> fst (eth_gas_price ch w) = Inr gp \<and> \<bar>gp\<bar> \<le> 2 ^ 1023 \<and> 0 \<le> max_gas_price_gwei gm
           \<and> max_gas_price_gwei gm * 1000000000 \<le> of_int MAX_WEI \<longrightarrow>
      fst (get_gas_price ch gm stream w) =
        Inr (if gp \<le> \<lfloor>max_gas_price_gwei gm * 1000000000\<rfloor> then gp
             else \<lfloor>max_gas_price_gwei gm * 1000000000\<rfloor>))
   \<and> ((\<forall>s. stream = Some s \<longrightarrow> \<bar>s\<bar> \<le> 2 ^ 1023 \<and> 0 \<le> max_gas_price_gwei gm
              \<and> max_gas_price_gwei gm * 1000000000 \<le> of_int MAX_WEI)
        \<and> (\<forall>g. stream = None \<and> gas_price_gwei gm = Some g \<longrightarrow>
              0 \<le> g \<and> g * 1000000000 \<le> of_int MAX_WEI) \<longrightarrow>
      (\<exists>v. fst (get_gas_price ch gm stream w) = Inr v))"
proof (intro conjI allI impI)
  fix s assume "stream = Some s"
  then show "fst (get_gas_price ch gm stream w) =
        (case to_wei_gwei (max_gas_price_gwei gm) of
           Inl e \<Rightarrow> Inl e
         | Inr m \<Rightarrow> (case py_float_of_int s of
                       Inl e \<Rightarrow> Inl e
                     | Inr v \<Rightarrow> Inr (if s \<le> m then s else m)))"
    by (auto simp: get_gas_price_stream_max_raises get_gas_price_stream_log_raises
          get_gas_price_def bindE_def liftE_def returnE_def log_gwei_def split: sum.splits)
next
  fix s
  assume a: "stream = Some s \<and> 0 \<le> max_gas_price_gwei gm
           \<and> max_gas_price_gwei gm * 1000000000 \<le> of_int MAX_WEI \<and> \<bar>s\<bar> \<le> 2 ^ 1023"
  then have m: "to_wei_gwei (max_gas_price_gwei gm) = Inr \<lfloor>max_gas_price_gwei gm * 1000000000\<rfloor>"
    by (simp add: to_wei_gwei_ok)
  from a have "\<bar>s\<bar> \<le> 2 ^ 1023" by simp
  from get_gas_price_stream[OF m this, of ch w] a
  show "fst (get_gas_price ch gm stream w) =
        Inr (if s \<le> \<lfloor>max_gas_price_gwei gm * 1000000000\<rfloor> then s
             else \<lfloor>max_gas_price_gwei gm * 1000000000\<rfloor>)"
    by simp
next
  fix s
  assume a: "stream = Some s \<and> (max_gas_price_gwei gm < 0
           \<or> of_int MAX_WEI < max_gas_price_gwei gm * 1000000000)"
  then have "to_wei_gwei (max_gas_price_gwei gm) = Inl ValueError"
    by (simp add: to_wei_gwei_raises)
  from get_gas_price_stream_max_raises[OF this, of ch s w] a
  show "fst (get_gas_price ch gm stream w) = Inl ValueError" by simp
next
  fix s
  assume a: "stream = Some s \<and> 0 \<le> max_gas_price_gwei gm
           \<and> max_gas_price_gwei gm * 1000000000 \<le> of_int MAX_WEI \<and> 2 ^ 1024 \<le> s"
  then have m: "to_wei_gwei (max_gas_price_gwei gm) = Inr \<lfloor>max_gas_price_gwei gm * 1000000000\<rfloor>"
    by (simp add: to_wei_gwei_ok)
  from a have "py_float_of_int s = Inl OverflowError" by (simp add: py_float_of_int_overflow)
  from get_gas_price_stream_log_raises[OF m this, of ch w] a
  show "fst (get_gas_price ch gm stream w) = Inl OverflowError" by simp
next
  fix g
  assume a: "stream = None \<and> gas_price_gwei gm = Some g \<and> g \<noteq> 0"
  then have "get_gas_price ch gm None w = (to_wei_gwei g, w)" by (simp add: get_gas_price_fixed)
  with a show "fst (get_gas_price ch gm stream w) =
        (if g < 0 \<or> of_int MAX_WEI < g * 1000000000 then Inl ValueError
         else Inr \<lfloor>g * 1000000000\<rfloor>)"
    by (auto simp: to_wei_gwei_def Let_def)
next
  assume a: "stream = None \<and> (gas_price_gwei gm = None \<or> gas_price_gwei gm = Some 0)"
  then have "gas_price_gwei gm = None \<or> gas_price_gwei gm = Some 0" by simp
  from get_gas_price_network[OF this, of ch w] a
  show "fst (get_gas_price ch gm stream w) =
        (case fst (eth_gas_price ch w) of
           Inl e \<Rightarrow> Inr 30000000000
         | Inr gp \<Rightarrow>
             if max_gas_price_gwei gm < 0 \<or> of_int MAX_WEI < max_gas_price_gwei gm * 1000000000
             then Inr 30000000000
             else (case py_float_of_int gp of
                     Inl e \<Rightarrow> Inr 30000000000
                   | Inr v \<Rightarrow> Inr (if gp \<le> \<lfloor>max_gas_price_gwei gm * 1000000000\<rfloor> then gp
                                   else \<lfloor>max_gas_price_gwei gm * 1000000000\<rfloor>)))"
    by (auto simp: to_wei_gwei_def Let_def split: sum.splits)
next
  fix gp
  assume a: "stream = None \<and> (gas_price_gwei gm = None \<or> gas_price_gwei gm = Some 0)
           \<and> fst (eth_gas_price ch w) = Inr gp \<and> \<bar>gp\<bar> \<le> 2 ^ 1023 \<and> 0 \<le> max_gas_price_gwei gm
           \<and> max_gas_price_gwei gm * 1000000000 \<le> of_int MAX_WEI"
  then have g: "gas_price_gwei gm = None \<or> gas_price_gwei gm = Some 0" by simp
  from a have m: "to_wei_gwei (max_gas_price_gwei gm) = Inr \<lfloor>max_gas_price_gwei gm * 1000000000\<rfloor>"
    by (simp add: to_wei_gwei_ok)
  from a have f: "py_float_of_int gp = Inr (round_to_double (of_int gp))"
    by (simp add: py_float_of_int_ok)
  from get_gas_price_network[OF g, of ch w] a m f
  show "fst (get_gas_price ch gm stream w) =
        Inr (if gp \<le> \<lfloor>max_gas_price_gwei gm * 1000000000\<rfloor> then gp
             else \<lfloor>max_gas_price_gwei gm * 1000000000\<rfloor>)"
    by simp
next
  assume a: "(\<forall>s. stream = Some s \<longrightarrow> \<bar>s\<bar> \<le> 2 ^ 1023 \<and> 0 \<le> max_gas_price_gwei gm
              \<and> max_gas_price_gwei gm * 1000000000 \<le> of_int MAX_WEI)
        \<and> (\<forall>g. stream = None \<and> gas_price_gwei gm = Some g \<longrightarrow>
              0 \<le> g \<and> g * 1000000000 \<le> of_int MAX_WEI)"
  show "\<exists>v. fst (get_gas_price ch gm stream w) = Inr v"
  proof (cases stream)
    case (Some s)
    with a have b: "\<bar>s\<bar> \<le> 2 ^ 1023" and "0 \<le> max_gas_price_gwei gm"
      and "max_gas_price_gwei gm * 1000000000 \<le> of_int MAX_WEI" by simp_all
    then have m: "to_wei_gwei (max_gas_price_gwei gm) = Inr \<lfloor>max_gas_price_gwei gm * 1000000000\<rfloor>"
      by (simp add: to_wei_gwei_ok)
    from get_gas_price_stream[OF m b, of ch w] Some show ?thesis by simp
  next
    case None
    show ?thesis
    proof (cases "gas_price_gwei gm = None \<or> gas_price_gwei gm = Some 0")
      case True
      from get_gas_price_network[OF True, of ch w] None show ?thesis
        by (auto split: sum.splits)
    next
      case False
      then obtain g where g: "gas_price_gwei gm = Some g" "g \<noteq> 0" by auto
      with a None have "0 \<le> g" "g * 1000000000 \<le> of_int MAX_WEI" by simp_all
      then have "to_wei_gwei g = Inr \<lfloor>g * 1000000000\<rfloor>" by (rule to_wei_gwei_ok)
      with get_gas_price_fixed[OF g, of ch w] None show ?thesis by simp
    qed
  qed
qed

text \<open>
  The claim as stated fails on three configurations. With a maximum of \<open>-5\<close> gwei and a stream
  price of 10 wei the call raises \<^verbatim>\<open>ValueError\<close>; with a fixed price of \<open>-1\<close> gwei and no stream
  price it raises \<^verbatim>\<open>ValueError\<close>; with a fixed price configured as 0 it returns the network
  price of 25 gwei, not the wei conversion of the fixed price, which is 0.
\<close>

theorem get_gas_price_raises_counterexample:
  "fst (get_gas_price example_chain \<lparr>gas_price_gwei = None, max_gas_price_gwei = - 5\<rparr> (Some 10) 0)
     = Inl ValueError
   \<and> fst (get_gas_price example_chain \<lparr>gas_price_gwei = Some (- 1), max_gas_price_gwei = 200\<rparr> None 0)
     = Inl ValueError
   \<and> fst (get_gas_price example_chain \<lparr>gas_price_gwei = Some 0, max_gas_price_gwei = 200\<rparr> None 0)
     = Inr 25000000000
   \<and> to_wei_gwei 0 = Inr 0"
proof (intro conjI)
  show "fst (get_gas_price example_chain \<lparr>gas_price_gwei = None, max_gas_price_gwei = - 5\<rparr> (Some 10) 0)
     = Inl ValueError"
    by (simp add: get_gas_price_def to_wei_gwei_def bindE_def liftE_def)
  show "fst (get_gas_price example_chain \<lparr>gas_price_gwei = Some (- 1), max_gas_price_gwei = 200\<rparr> None 0)
     = Inl ValueError"
    by (simp add: get_gas_price_def to_wei_gwei_def bindE_def liftE_def Let_def)
  have f: "py_float_of_int 25000000000 = Inr (round_to_double 25000000000)"
    using py_float_of_int_ok[of 25000000000] by simp
  show "fst (get_gas_price example_chain \<lparr>gas_price_gwei = Some 0, max_gas_price_gwei = 200\<rparr> None 0)
     = Inr 25000000000"
    by (simp add: get_gas_price_def to_wei_gwei_def bindE_def liftE_def Let_def try_except_def
          returnE_def example_chain_def log_gwei_def f MAX_WEI_def)
  show "to_wei_gwei 0 = Inr 0" by (simp add: to_wei_gwei_def MAX_WEI_def)
qed

text \<open>
  The amended statement at work: a stream price above and below a maximum of 200 gwei, an
  invalid maximum, a stream price beyond the doubles, a fixed price of 500 gwei above the
  maximum, and the network price of 25 gwei capped at a maximum of 20 gwei.
\<close>

theorem get_gas_price_three_tiers_amended_witness:
  "fst (get_gas_price example_chain \<lparr>gas_price_gwei = None, max_gas_price_gwei = 200\<rparr> (Some 250000000000) 0)
     = Inr 200000000000
   \<and> fst (get_gas_price example_chain \<lparr>gas_price_gwei = None, max_gas_price_gwei = 200\<rparr> (Some 20000000000) 0)
     = Inr 20000000000
   \<and> fst (get_gas_price example_chain \<lparr>gas_price_gwei = None, max_gas_price_gwei = - 5\<rparr> (Some 10) 0)
     = Inl ValueError
   \<and> fst (get_gas_price example_chain \<lparr>gas_price_gwei = None, max_gas_price_gwei = 200\<rparr> (Some (2 ^ 1024)) 0)
     = Inl OverflowError
   \<and> fst (get_gas_price example_chain \<lparr>gas_price_gwei = Some 500, max_gas_price_gwei = 200\<rparr> None 0)
     = Inr 500000000000
   \<and> fst (get_gas_price example_chain \<lparr>gas_price_gwei = None, max_gas_price_gwei = 20\<rparr> None 0)
     = Inr 20000000000"
proof -
  have m: "(200::real) * 1000000000 \<le> of_int MAX_WEI" "(20::real) * 1000000000 \<le> of_int MAX_WEI"
    "\<not> of_int MAX_WEI < (500::real) * 1000000000"
    by (simp_all add: MAX_WEI_def)
  have p: "\<bar>250000000000::int\<bar> \<le> 2 ^ 1023" "\<bar>20000000000::int\<bar> \<le> 2 ^ 1023" "\<bar>25000000000::int\<bar> \<le> 2 ^ 1023"
    by simp_all
  note t = get_gas_price_three_tiers_amended
  have 1: "fst (get_gas_price example_chain \<lparr>gas_price_gwei = None, max_gas_price_gwei = 200\<rparr> (Some 250000000000) 0)
     = Inr 200000000000"
    using t[of "Some 250000000000" example_chain "\<lparr>gas_price_gwei = None, max_gas_price_gwei = 200\<rparr>" 0] m p
    by (simp add: to_wei_gwei_def MAX_WEI_def Let_def py_float_of_int_ok py_float_of_int_overflow)
  have 2: "fst (get_gas_price example_chain \<lparr>gas_price_gwei = None, max_gas_price_gwei = 200\<rparr> (Some 20000000000) 0)
     = Inr 20000000000"
    using t[of "Some 20000000000" example_chain "\<lparr>gas_price_gwei = None, max_gas_price_gwei = 200\<rparr>" 0] m p
    by (simp add: to_wei_gwei_def MAX_WEI_def Let_def py_float_of_int_ok py_float_of_int_overflow)
  have 3: "fst (get_gas_price example_chain \<lparr>gas_price_gwei = None, max_gas_price_gwei = - 5\<rparr> (Some 10) 0)
     = Inl ValueError"
    using t[of "Some 10" example_chain "\<lparr>gas_price_gwei = None, max_gas_price_gwei = - 5\<rparr>" 0]
    by (simp add: to_wei_gwei_def MAX_WEI_def Let_def py_float_of_int_ok py_float_of_int_overflow)
  have 4: "fst (get_gas_price example_chain \<lparr>gas_price_gwei = None, max_gas_price_gwei = 200\<rparr> (Some (2 ^ 1024)) 0)
     = Inl OverflowError"
    using t[of "Some (2 ^ 1024)" example_chain "\<lparr>gas_price_gwei = None, max_gas_price_gwei = 200\<rparr>" 0] m
    by (simp add: to_wei_gwei_def MAX_WEI_def Let_def py_float_of_int_ok py_float_of_int_overflow)
  have 5: "fst (get_gas_price example_chain \<lparr>gas_price_gwei = Some 500, max_gas_price_gwei = 200\<rparr> None 0)
     = Inr 500000000000"
    using t[of None example_chain "\<lparr>gas_price_gwei = Some 500, max_gas_price_gwei = 200\<rparr>" 0] m
    by (simp add: to_wei_gwei_def MAX_WEI_def Let_def py_float_of_int_ok py_float_of_int_overflow)
  have 6: "fst (get_gas_price example_chain \<lparr>gas_price_gwei = None, max_gas_price_gwei = 20\<rparr> None 0)
     = Inr 20000000000"
    using t[of None example_chain "\<lparr>gas_price_gwei = None, max_gas_price_gwei = 20\<rparr>" 0] m p
    by (simp add: example_chain_def to_wei_gwei_def MAX_WEI_def Let_def py_float_of_int_ok py_float_of_int_overflow)
  from 1 2 3 4 5 6 show ?thesis by blast
qed

end
